theory Spec2Isabelle
  imports Complex_Main "HOL-Library.AList"
begin

section \<open>JavaScript values\<close>

text \<open>
  The library \<^verbatim>\<open>src/src/Json.js\<close> maps JSON-shaped data to model objects and back.
  Values are the JSON-shaped ones: \<^verbatim>\<open>undefined\<close>, \<^verbatim>\<open>null\<close>, booleans, numbers,
  strings, plain objects (own data properties, in insertion order) and arrays.
  Function values are outside this value model, and so are the members a plain object
  inherits from \<^verbatim>\<open>Object.prototype\<close>, which are functions. Instances of entity classes,
  with their accessors, are modelled apart from the plain values (section Entities).

  A number is \<^verbatim>\<open>NaN\<close>, an infinity or a finite value. Finite doubles are embedded in
  the reals: the only arithmetic the modelled code performs on them
  (\<^verbatim>\<open>Math.max\<close>, \<^verbatim>\<open>Math.min\<close>, \<^verbatim>\<open>Math.abs\<close>) selects or negates an argument and
  never rounds. The two zeros are identified, as \<^verbatim>\<open>===\<close> identifies them.
\<close>

datatype jsnum = NaN | NegInf | Fin real | PosInf

datatype jsval =
    Undefined
  | Null
  | Bool bool
  | Num jsnum
  | Str string
  | Obj "(string \<times> jsval) list"
  | Arr "jsval list"

type_synonym props = "(string \<times> jsval) list"

text \<open>What a \<^verbatim>\<open>throw\<close> carries: a runtime \<^verbatim>\<open>TypeError\<close>, the error of a failed
  \<^verbatim>\<open>invariant(...)\<close> with its message, or any value thrown by user code.\<close>

datatype exn = TypeError | InvariantViolation string | Thrown jsval

text \<open>\<^verbatim>\<open>!v\<close>: the falsy values are \<^verbatim>\<open>undefined\<close>, \<^verbatim>\<open>null\<close>, \<^verbatim>\<open>false\<close>, \<^verbatim>\<open>NaN\<close>, zero and
  the empty string.\<close>

fun falsy :: "jsval \<Rightarrow> bool" where
  "falsy Undefined = True"
| "falsy Null = True"
| "falsy (Bool b) = (\<not> b)"
| "falsy (Num n) = (n = NaN \<or> n = Fin 0)"
| "falsy (Str s) = (s = [])"
| "falsy (Obj ps) = False"
| "falsy (Arr xs) = False"

text \<open>The canonical decimal spelling of an array index.\<close>

fun dec :: "nat \<Rightarrow> string" where
  "dec n = (if n < 10 then [''0123456789'' ! n]
            else dec (n div 10) @ [''0123456789'' ! (n mod 10)])"

declare dec.simps [simp del]

definition index_of_key :: "string \<Rightarrow> nat \<Rightarrow> nat option" where
  "index_of_key k n = List.find (\<lambda>i. dec i = k) [0..<n]"

text \<open>\<^verbatim>\<open>j[k]\<close>: reading a property of \<^verbatim>\<open>undefined\<close> or \<^verbatim>\<open>null\<close> throws a \<^verbatim>\<open>TypeError\<close>;
  a missing property reads as \<^verbatim>\<open>undefined\<close>. Arrays and strings expose \<^verbatim>\<open>length\<close> and
  their indices.\<close>

fun get_prop :: "jsval \<Rightarrow> string \<Rightarrow> exn + jsval" where
  "get_prop Undefined k = Inl TypeError"
| "get_prop Null k = Inl TypeError"
| "get_prop (Obj ps) k = Inr (case map_of ps k of None \<Rightarrow> Undefined | Some v \<Rightarrow> v)"
| "get_prop (Arr xs) k =
     Inr (if k = ''length'' then Num (Fin (real (length xs)))
          else case index_of_key k (length xs) of None \<Rightarrow> Undefined | Some i \<Rightarrow> xs ! i)"
| "get_prop (Str s) k =
     Inr (if k = ''length'' then Num (Fin (real (length s)))
          else case index_of_key k (length s) of None \<Rightarrow> Undefined | Some i \<Rightarrow> Str [s ! i])"
| "get_prop (Bool b) k = Inr Undefined"
| "get_prop (Num n) k = Inr Undefined"

subsection \<open>Numbers\<close>

text \<open>\<^verbatim>\<open>a <= b\<close> on numbers: false as soon as one side is \<^verbatim>\<open>NaN\<close>.\<close>

fun num_le :: "jsnum \<Rightarrow> jsnum \<Rightarrow> bool" where
  "num_le NaN b = False"
| "num_le a NaN = False"
| "num_le NegInf b = True"
| "num_le a PosInf = True"
| "num_le (Fin x) (Fin y) = (x \<le> y)"
| "num_le PosInf b = False"
| "num_le a NegInf = False"

text \<open>\<^verbatim>\<open>Math.max\<close>, \<^verbatim>\<open>Math.min\<close> and \<^verbatim>\<open>Math.abs\<close> on numbers (ECMAScript: \<^verbatim>\<open>NaN\<close> as
  soon as an argument is \<^verbatim>\<open>NaN\<close>).\<close>

fun num_max :: "jsnum \<Rightarrow> jsnum \<Rightarrow> jsnum" where
  "num_max NaN b = NaN"
| "num_max a NaN = NaN"
| "num_max PosInf b = PosInf"
| "num_max a PosInf = PosInf"
| "num_max NegInf b = b"
| "num_max a NegInf = a"
| "num_max (Fin x) (Fin y) = Fin (max x y)"

fun num_min :: "jsnum \<Rightarrow> jsnum \<Rightarrow> jsnum" where
  "num_min NaN b = NaN"
| "num_min a NaN = NaN"
| "num_min NegInf b = NegInf"
| "num_min a NegInf = NegInf"
| "num_min PosInf b = b"
| "num_min a PosInf = a"
| "num_min (Fin x) (Fin y) = Fin (min x y)"

fun num_abs :: "jsnum \<Rightarrow> jsnum" where
  "num_abs NaN = NaN"
| "num_abs NegInf = PosInf"
| "num_abs PosInf = PosInf"
| "num_abs (Fin x) = Fin \<bar>x\<bar>"

text \<open>\<^verbatim>\<open>ToNumber\<close> (the unary \<^verbatim>\<open>+\<close>, and the coercion \<^verbatim>\<open>Math.*\<close> applies to each
  argument). The conversions of strings (\<^verbatim>\<open>StringToNumber\<close>) and of objects and arrays
  (\<^verbatim>\<open>ToPrimitive\<close>, which can throw) belong to the language, not to the library: they are
  the parameter \<open>coerce\<close>.\<close>

type_synonym coercion = "jsval \<Rightarrow> exn + jsnum"

fun ToNumber :: "coercion \<Rightarrow> jsval \<Rightarrow> exn + jsnum" where
  "ToNumber coerce Undefined = Inr NaN"
| "ToNumber coerce Null = Inr (Fin 0)"
| "ToNumber coerce (Bool b) = Inr (Fin (if b then 1 else 0))"
| "ToNumber coerce (Num n) = Inr n"
| "ToNumber coerce v = coerce v"

definition Math_max :: "coercion \<Rightarrow> jsval \<Rightarrow> jsval \<Rightarrow> exn + jsval" where
  "Math_max coerce a b =
     (case ToNumber coerce a of Inl e \<Rightarrow> Inl e
      | Inr x \<Rightarrow> (case ToNumber coerce b of Inl e \<Rightarrow> Inl e | Inr y \<Rightarrow> Inr (Num (num_max x y))))"

definition Math_min :: "coercion \<Rightarrow> jsval \<Rightarrow> jsval \<Rightarrow> exn + jsval" where
  "Math_min coerce a b =
     (case ToNumber coerce a of Inl e \<Rightarrow> Inl e
      | Inr x \<Rightarrow> (case ToNumber coerce b of Inl e \<Rightarrow> Inl e | Inr y \<Rightarrow> Inr (Num (num_min x y))))"

definition Math_abs :: "coercion \<Rightarrow> jsval \<Rightarrow> exn + jsval" where
  "Math_abs coerce a = (case ToNumber coerce a of Inl e \<Rightarrow> Inl e | Inr x \<Rightarrow> Inr (Num (num_abs x)))"

section \<open>Effects\<close>

text \<open>
  Mapper functions are user closures: they may throw and they may have side effects.
  A computation therefore takes the world and returns an exception or a value, with the
  world it leaves. The world holds the console (the library logs to it) and whatever
  mutable state the closures can reach.
\<close>

datatype console_entry = ConsoleLog string exn | ConsoleError string

record 'u world =
  console :: "console_entry list"
  store :: 'u

type_synonym ('a, 'u) js = "'u world \<Rightarrow> (exn + 'a) \<times> 'u world"

definition js_return :: "'a \<Rightarrow> ('a, 'u) js" where
  "js_return x w = (Inr x, w)"

definition js_throw :: "exn \<Rightarrow> ('a, 'u) js" where
  "js_throw e w = (Inl e, w)"

definition js_lift :: "exn + 'a \<Rightarrow> ('a, 'u) js" where
  "js_lift r w = (r, w)"

definition js_bind :: "('a, 'u) js \<Rightarrow> ('a \<Rightarrow> ('b, 'u) js) \<Rightarrow> ('b, 'u) js" where
  "js_bind m k w = (case m w of (Inl e, w') \<Rightarrow> (Inl e, w') | (Inr x, w') \<Rightarrow> k x w')"

text \<open>\<^verbatim>\<open>try { m } catch (e) { h }\<close>\<close>

definition js_try :: "('a, 'u) js \<Rightarrow> (exn \<Rightarrow> ('a, 'u) js) \<Rightarrow> ('a, 'u) js" where
  "js_try m h w = (case m w of (Inl e, w') \<Rightarrow> h e w' | (Inr x, w') \<Rightarrow> (Inr x, w'))"

definition console_log :: "string \<Rightarrow> exn \<Rightarrow> (unit, 'u) js" where
  "console_log msg e w = (Inr (), w\<lparr>console := console w @ [ConsoleLog msg e]\<rparr>)"

definition console_error :: "string \<Rightarrow> (unit, 'u) js" where
  "console_error msg w = (Inr (), w\<lparr>console := console w @ [ConsoleError msg]\<rparr>)"

text \<open>Calling a property that should hold a function: calling \<^verbatim>\<open>undefined\<close> throws a
  \<^verbatim>\<open>TypeError\<close>.\<close>

definition call :: "('a \<Rightarrow> ('b, 'u) js) option \<Rightarrow> 'a \<Rightarrow> ('b, 'u) js" where
  "call f x = (case f of None \<Rightarrow> js_throw TypeError | Some g \<Rightarrow> g x)"

section \<open>Entities\<close>

text \<open>
  \<^verbatim>\<open>Format.read\<close> builds its result with \<^verbatim>\<open>new this._cl()\<close> and fills it with
  \<^verbatim>\<open>out[ f.modelName ] = value\<close>; the write functions of the mappers read \<^verbatim>\<open>m[ name ]\<close>
  from such an instance. Both go through the prototype chain of the instance: an
  assignment runs a setter that the class (or \<^verbatim>\<open>Object.prototype\<close>, for \<^verbatim>\<open>__proto__\<close>)
  declares, and throws a \<^verbatim>\<open>TypeError\<close> on a member with a getter only (the module is
  strict code); a read runs a getter. The repository's test class declares
  \<^verbatim>\<open>set readonly( value )\<close> and \<^verbatim>\<open>get writeonly()\<close>.

  The state of an instance is its own data properties and its prototype: that of its
  class, or a plain value once \<^verbatim>\<open>__proto__\<close> was assigned an object or \<^verbatim>\<open>null\<close>.
\<close>

datatype proto = ClassPrototype | ValuePrototype jsval

record objstate =
  own :: props
  prototype :: proto

text \<open>
  An entity class is what JavaScript does with its instances: \<^verbatim>\<open>new C()\<close>, the assignment
  \<^verbatim>\<open>out[ k ] = v\<close> and the read \<^verbatim>\<open>m[ k ]\<close>. Each may throw and may have effects.
\<close>

datatype 'u Class = Class
  (construct: "(objstate, 'u) js")
  (assign: "string \<Rightarrow> jsval \<Rightarrow> objstate \<Rightarrow> (objstate, 'u) js")
  (lookup: "objstate \<Rightarrow> string \<Rightarrow> (jsval, 'u) js")

text \<open>An instance is a state together with its class. A model, as \<^verbatim>\<open>Format.read\<close> returns
  it and \<^verbatim>\<open>Format.write\<close> receives it, is a plain value or an instance.\<close>

type_synonym 'u entity = "'u Class \<times> objstate"

datatype 'u mval = Plain jsval | Inst "'u entity"

definition set_member :: "'u entity \<Rightarrow> string \<Rightarrow> jsval \<Rightarrow> ('u entity, 'u) js" where
  "set_member out k v = js_bind (assign (fst out) k v (snd out)) (\<lambda>i. js_return (fst out, i))"

definition get_member :: "'u entity \<Rightarrow> string \<Rightarrow> (jsval, 'u) js" where
  "get_member m k = lookup (fst m) (snd m) k"

text \<open>\<^verbatim>\<open>m[ k ]\<close> and \<^verbatim>\<open>!m\<close> on a model.\<close>

fun member :: "'u mval \<Rightarrow> string \<Rightarrow> (jsval, 'u) js" where
  "member (Plain v) k = js_lift (get_prop v k)"
| "member (Inst e) k = get_member e k"

fun falsy_model :: "'u mval \<Rightarrow> bool" where
  "falsy_model (Plain v) = falsy v"
| "falsy_model (Inst e) = False"

subsection \<open>Classes declared in JavaScript\<close>

text \<open>
  A class declared with \<^verbatim>\<open>class C { ... }\<close> is a constructor and the accessors of its
  prototype chain below \<^verbatim>\<open>Object.prototype\<close>. Assignment and read are the ordinary ones
  of ECMAScript (\<^verbatim>\<open>OrdinarySet\<close>, \<^verbatim>\<open>OrdinaryGet\<close>): the first object of the chain that has
  the property decides, and \<^verbatim>\<open>Object.prototype\<close> contributes the accessor \<^verbatim>\<open>__proto__\<close>.
  The methods of a class and of \<^verbatim>\<open>Object.prototype\<close> are function-valued data properties:
  an assignment shadows them with an own property, as the model has it. The values of
  this model do not include functions or the prototype object of a class, so a read
  that returns one in JavaScript (a method, \<^verbatim>\<open>constructor\<close>, \<^verbatim>\<open>__proto__\<close> of an instance
  whose prototype was not reassigned) reads as \<^verbatim>\<open>undefined\<close> here.
\<close>

record 'u accessor =
  getter :: "(objstate \<Rightarrow> (jsval, 'u) js) option"
  setter :: "(jsval \<Rightarrow> objstate \<Rightarrow> (objstate, 'u) js) option"

text \<open>Whether a plain object or array has an own property.\<close>

fun has_own :: "jsval \<Rightarrow> string \<Rightarrow> bool" where
  "has_own (Obj ps) k = (case map_of ps k of None \<Rightarrow> False | Some v \<Rightarrow> True)"
| "has_own (Arr xs) k =
     (k = ''length'' \<or> (case index_of_key k (length xs) of None \<Rightarrow> False | Some i \<Rightarrow> True))"
| "has_own v k = False"

text \<open>The setter of \<^verbatim>\<open>Object.prototype.__proto__\<close>: an object or \<^verbatim>\<open>null\<close> becomes the
  prototype, any other value is ignored.\<close>

fun proto_setter :: "jsval \<Rightarrow> objstate \<Rightarrow> objstate" where
  "proto_setter (Obj ps) i = i\<lparr>prototype := ValuePrototype (Obj ps)\<rparr>"
| "proto_setter (Arr xs) i = i\<lparr>prototype := ValuePrototype (Arr xs)\<rparr>"
| "proto_setter Null i = i\<lparr>prototype := ValuePrototype Null\<rparr>"
| "proto_setter v i = i"

definition ordinary_set ::
  "(string \<Rightarrow> 'u accessor option) \<Rightarrow> string \<Rightarrow> jsval \<Rightarrow> objstate \<Rightarrow> (objstate, 'u) js" where
  "ordinary_set accs k v i =
     (case map_of (own i) k of
        Some old \<Rightarrow> js_return (i\<lparr>own := AList.update k v (own i)\<rparr>)
      | None \<Rightarrow>
          (case prototype i of
             ClassPrototype \<Rightarrow>
               (case accs k of
                  Some a \<Rightarrow> (case setter a of Some s \<Rightarrow> s v i | None \<Rightarrow> js_throw TypeError)
                | None \<Rightarrow>
                    if k = ''__proto__'' then js_return (proto_setter v i)
                    else js_return (i\<lparr>own := AList.update k v (own i)\<rparr>))
           | ValuePrototype p \<Rightarrow>
               if k = ''__proto__'' \<and> p \<noteq> Null \<and> \<not> has_own p k
               then js_return (proto_setter v i)
               else js_return (i\<lparr>own := AList.update k v (own i)\<rparr>)))"

definition ordinary_get ::
  "(string \<Rightarrow> 'u accessor option) \<Rightarrow> objstate \<Rightarrow> string \<Rightarrow> (jsval, 'u) js" where
  "ordinary_get accs i k =
     (case map_of (own i) k of
        Some v \<Rightarrow> js_return v
      | None \<Rightarrow>
          (case prototype i of
             ClassPrototype \<Rightarrow>
               (case accs k of
                  Some a \<Rightarrow> (case getter a of Some g \<Rightarrow> g i | None \<Rightarrow> js_return Undefined)
                | None \<Rightarrow> js_return Undefined)
           | ValuePrototype p \<Rightarrow>
               if p = Null then js_return Undefined
               else if k = ''__proto__'' \<and> \<not> has_own p k then js_return p
               else js_lift (get_prop p k)))"

text \<open>The class with the given constructor (the own properties it leaves on the fresh
  instance) and accessors.\<close>

definition js_class :: "(props, 'u) js \<Rightarrow> (string \<Rightarrow> 'u accessor option) \<Rightarrow> 'u Class" where
  "js_class ctor accs =
     Class (js_bind ctor (\<lambda>ps. js_return \<lparr>own = ps, prototype = ClassPrototype\<rparr>))
       (ordinary_set accs) (ordinary_get accs)"

definition no_accessors :: "string \<Rightarrow> 'u accessor option" where
  "no_accessors k = None"

section \<open>Mappers\<close>

text \<open>
  \<^verbatim>\<open>SimpleMapper\<close> and its subclasses \<^verbatim>\<open>Mapper\<close>, \<^verbatim>\<open>NumberMapper\<close>, \<^verbatim>\<open>JsonValue\<close>,
  \<^verbatim>\<open>JsonNode\<close> share the four fields; the class of an instance decides which
  \<^verbatim>\<open>transform\<close> a call of \<^verbatim>\<open>this.transform\<close> reaches. The fields \<^verbatim>\<open>read\<close> and \<^verbatim>\<open>write\<close>
  hold a function or \<^verbatim>\<open>undefined\<close> (\<^verbatim>\<open>rawTransform\<close> is called with one argument in
  the tests), hence the options.
\<close>

datatype mapper_class = MapperClass | NumberMapperClass | JsonValueClass | JsonNodeClass

record 'u Mapper =
  mclass :: mapper_class
  name :: string
  modelName :: string
  read_fn :: "(jsval \<Rightarrow> (jsval, 'u) js) option"
  write_fn :: "('u mval \<Rightarrow> (jsval, 'u) js) option"

text \<open>\<^verbatim>\<open>Mapper.transform\<close>: \<^verbatim>\<open>o => read( this.read( o ) )\<close>, \<^verbatim>\<open>m => write( this.write( m ) )\<close>.\<close>

definition Mapper_transform ::
  "'u Mapper \<Rightarrow> (jsval \<Rightarrow> (jsval, 'u) js) \<Rightarrow> (jsval \<Rightarrow> (jsval, 'u) js) \<Rightarrow> 'u Mapper" where
  "Mapper_transform this readStep writeStep =
     \<lparr>mclass = MapperClass, name = name this, modelName = modelName this,
      read_fn = Some (\<lambda>other. js_bind (call (read_fn this) other) readStep),
      write_fn = Some (\<lambda>m. js_bind (call (write_fn this) m) writeStep)\<rparr>"

text \<open>\<^verbatim>\<open>NumberMapper.transform\<close>: the read side is composed, the write side is
  \<^verbatim>\<open>this.write\<close>.\<close>

definition NumberMapper_transform ::
  "'u Mapper \<Rightarrow> (jsval \<Rightarrow> (jsval, 'u) js) \<Rightarrow> (jsval \<Rightarrow> (jsval, 'u) js) \<Rightarrow> 'u Mapper" where
  "NumberMapper_transform this readStep writeStep =
     \<lparr>mclass = NumberMapperClass, name = name this, modelName = modelName this,
      read_fn = Some (\<lambda>other. js_bind (call (read_fn this) other) readStep),
      write_fn = write_fn this\<rparr>"

text \<open>\<^verbatim>\<open>this.transform( r, w )\<close>: dynamic dispatch on the receiver's class.\<close>

definition transform ::
  "'u Mapper \<Rightarrow> (jsval \<Rightarrow> (jsval, 'u) js) \<Rightarrow> (jsval \<Rightarrow> (jsval, 'u) js) \<Rightarrow> 'u Mapper" where
  "transform this readStep writeStep =
     (case mclass this of
        NumberMapperClass \<Rightarrow> NumberMapper_transform this readStep writeStep
      | _ \<Rightarrow> Mapper_transform this readStep writeStep)"

text \<open>\<^verbatim>\<open>Mapper.number\<close>: \<^verbatim>\<open>v => +this.read( v )\<close>, \<^verbatim>\<open>this.write\<close>.\<close>

definition Mapper_number :: "coercion \<Rightarrow> 'u Mapper \<Rightarrow> 'u Mapper" where
  "Mapper_number coerce this =
     \<lparr>mclass = NumberMapperClass, name = name this, modelName = modelName this,
      read_fn = Some (\<lambda>v. js_bind (call (read_fn this) v)
                  (\<lambda>x. js_bind (js_lift (ToNumber coerce x)) (\<lambda>n. js_return (Num n)))),
      write_fn = write_fn this\<rparr>"

text \<open>\<^verbatim>\<open>Mapper.readonly\<close> and \<^verbatim>\<open>Mapper.writeonly\<close>: the other direction becomes
  \<^verbatim>\<open>_ => void 0\<close>.\<close>

definition Mapper_readonly :: "'u Mapper \<Rightarrow> 'u Mapper" where
  "Mapper_readonly this =
     \<lparr>mclass = MapperClass, name = name this, modelName = modelName this,
      read_fn = read_fn this, write_fn = Some (\<lambda>_. js_return Undefined)\<rparr>"

definition Mapper_writeonly :: "'u Mapper \<Rightarrow> 'u Mapper" where
  "Mapper_writeonly this =
     \<lparr>mclass = MapperClass, name = name this, modelName = modelName this,
      read_fn = Some (\<lambda>_. js_return Undefined), write_fn = write_fn this\<rparr>"

text \<open>\<^verbatim>\<open>NumberMapper.abs\<close>, \<^verbatim>\<open>min\<close> and \<^verbatim>\<open>max\<close>. The bound is a \<^verbatim>\<open>number\<close> by its
  declared type; the incoming value is whatever the previous read produced.\<close>

definition NumberMapper_abs :: "coercion \<Rightarrow> 'u Mapper \<Rightarrow> 'u Mapper" where
  "NumberMapper_abs coerce this =
     transform this (\<lambda>v. if \<not> falsy v then js_lift (Math_abs coerce v) else js_return v)
                    (\<lambda>v. js_return v)"

definition NumberMapper_min :: "coercion \<Rightarrow> 'u Mapper \<Rightarrow> jsnum \<Rightarrow> 'u Mapper" where
  "NumberMapper_min coerce this m =
     transform this (\<lambda>v. if \<not> falsy v then js_lift (Math_max coerce v (Num m)) else js_return (Num m))
                    (\<lambda>v. js_return v)"

definition NumberMapper_max :: "coercion \<Rightarrow> 'u Mapper \<Rightarrow> jsnum \<Rightarrow> 'u Mapper" where
  "NumberMapper_max coerce this m =
     transform this (\<lambda>v. if \<not> falsy v then js_lift (Math_min coerce v (Num m)) else js_return (Num m))
                    (\<lambda>v. js_return v)"

text \<open>\<^verbatim>\<open>JsonValue.to\<close> and \<^verbatim>\<open>JsonValue.rawTransform\<close>.\<close>

definition JsonValue_to :: "'u Mapper \<Rightarrow> string \<Rightarrow> 'u Mapper" where
  "JsonValue_to this newName =
     \<lparr>mclass = JsonValueClass, name = name this, modelName = newName,
      read_fn = read_fn this, write_fn = Some (\<lambda>model. member model newName)\<rparr>"

definition JsonValue_rawTransform ::
  "'u Mapper \<Rightarrow> (jsval \<Rightarrow> (jsval, 'u) js) option \<Rightarrow> ('u mval \<Rightarrow> (jsval, 'u) js) option \<Rightarrow> 'u Mapper" where
  "JsonValue_rawTransform this rd wr =
     \<lparr>mclass = MapperClass, name = name this, modelName = modelName this,
      read_fn = rd, write_fn = wr\<rparr>"

text \<open>The entry points \<^verbatim>\<open>json\<close> and \<^verbatim>\<open>number\<close>, called as template tags: the field name
  is \<^verbatim>\<open>strings[ 0 ]\<close> (a missing element reads as \<^verbatim>\<open>undefined\<close>, which as a property key
  is the string \<^verbatim>\<open>"undefined"\<close>).\<close>

definition json :: "string list \<Rightarrow> 'u Mapper" where
  "json strings =
     (let nm = (case strings of [] \<Rightarrow> ''undefined'' | s # _ \<Rightarrow> s)
      in \<lparr>mclass = JsonValueClass, name = nm, modelName = nm,
          read_fn = Some (\<lambda>j. js_lift (get_prop j nm)),
          write_fn = Some (\<lambda>m. member m nm)\<rparr>)"

definition number :: "coercion \<Rightarrow> string list \<Rightarrow> 'u Mapper" where
  "number coerce strings = Mapper_number coerce (json strings)"

section \<open>Formats\<close>

text \<open>
  The entity class of a format can be missing (\<^verbatim>\<open>Format.extend\<close> checks \<^verbatim>\<open>!!cl\<close>):
  \<^verbatim>\<open>new\<close> applied to \<^verbatim>\<open>undefined\<close> throws a \<^verbatim>\<open>TypeError\<close>.
\<close>

definition new :: "'u Class option \<Rightarrow> ('u entity, 'u) js" where
  "new c = (case c of None \<Rightarrow> js_throw TypeError
            | Some k \<Rightarrow> js_bind (construct k) (\<lambda>i. js_return (k, i)))"

text \<open>\<^verbatim>\<open>readonly()\<close> and \<^verbatim>\<open>writeonly()\<close> instantiate an anonymous subclass of \<^verbatim>\<open>Format\<close>
  that overrides one method and captures \<^verbatim>\<open>silent\<close>.\<close>

datatype override = NoOverride | WriteOverridden bool | ReadOverridden bool

text \<open>The fields \<^verbatim>\<open>_cl\<close>, \<^verbatim>\<open>_mappers\<close>, \<^verbatim>\<open>dropUndefined\<close> and \<^verbatim>\<open>_read\<close>. The closure
  \<^verbatim>\<open>_read\<close> reads \<^verbatim>\<open>this.dropUndefined\<close> when it runs: the flag is its first argument.\<close>

record 'u Format =
  cl :: "'u Class option"
  mappers :: "'u Mapper list"
  dropUndefined :: bool
  private_read :: "bool \<Rightarrow> jsval \<Rightarrow> 'u entity \<Rightarrow> ('u entity, 'u) js"
  override :: override

text \<open>One element of \<^verbatim>\<open>mappers.map( f => ( source, out ) => ... )\<close> in the constructor.\<close>

definition read_step :: "'u Mapper \<Rightarrow> bool \<Rightarrow> jsval \<Rightarrow> 'u entity \<Rightarrow> ('u entity, 'u) js" where
  "read_step f dropU source out =
     js_bind (call (read_fn f) source)
       (\<lambda>value. if dropU \<and> value = Undefined then js_return out
                 else set_member out (modelName f) value)"

text \<open>\<^verbatim>\<open>( a, b ) => ( source, out ) => { a( source, out ); b( source, out ); }\<close>\<close>

definition seq_step ::
  "(bool \<Rightarrow> jsval \<Rightarrow> 'u entity \<Rightarrow> ('u entity, 'u) js)
     \<Rightarrow> (bool \<Rightarrow> jsval \<Rightarrow> 'u entity \<Rightarrow> ('u entity, 'u) js)
     \<Rightarrow> bool \<Rightarrow> jsval \<Rightarrow> 'u entity \<Rightarrow> ('u entity, 'u) js" where
  "seq_step a b = (\<lambda>dropU source out. js_bind (a dropU source out) (b dropU source))"

text \<open>\<^verbatim>\<open>Array.prototype.reduce\<close> without an initial value: a \<^verbatim>\<open>TypeError\<close> on the empty
  array, the first element as the start otherwise.\<close>

definition reduce :: "('a \<Rightarrow> 'a \<Rightarrow> 'a) \<Rightarrow> 'a list \<Rightarrow> exn + 'a" where
  "reduce f xs = (case xs of [] \<Rightarrow> Inl TypeError | x # rest \<Rightarrow> Inr (foldl f x rest))"

text \<open>The constructor \<^verbatim>\<open>new Format( cl, ...mappers )\<close>.\<close>

definition Format :: "'u Class option \<Rightarrow> 'u Mapper list \<Rightarrow> exn + 'u Format" where
  "Format c ms =
     (case reduce seq_step (map read_step ms) of
        Inl e \<Rightarrow> Inl e
      | Inr r \<Rightarrow> Inr \<lparr>cl = c, mappers = ms, dropUndefined = True, private_read = r,
                      override = NoOverride\<rparr>)"

text \<open>\<^verbatim>\<open>Format.prototype.read\<close> (lines 55 to 68).\<close>

definition Format_read :: "'u Format \<Rightarrow> jsval \<Rightarrow> ('u mval, 'u) js" where
  "Format_read this source =
     (if falsy source then js_return (Plain Null)
      else js_try
             (js_bind (new (cl this))
                (\<lambda>out. js_bind (private_read this (dropUndefined this) source out)
                   (\<lambda>out'. js_return (Inst out'))))
             (\<lambda>e. js_bind (console_log ''A format read completely exploded.'' e)
                (\<lambda>_. js_return (Plain Undefined))))"

text \<open>\<^verbatim>\<open>!!f.write\<close>\<close>

definition has_write :: "'u Mapper \<Rightarrow> bool" where
  "has_write f = (case write_fn f of None \<Rightarrow> False | Some g \<Rightarrow> True)"

text \<open>\<^verbatim>\<open>Array.prototype.forEach\<close>, threading the object the callback mutates.\<close>

fun forEach :: "('a \<Rightarrow> 's \<Rightarrow> ('s, 'u) js) \<Rightarrow> 'a list \<Rightarrow> 's \<Rightarrow> ('s, 'u) js" where
  "forEach g [] out = js_return out"
| "forEach g (x # xs) out = js_bind (g x out) (forEach g xs)"

text \<open>The callback of \<^verbatim>\<open>Format.prototype.write\<close>: \<^verbatim>\<open>f.write( model )\<close> is called for the
  check and called again for the assignment. The object \<^verbatim>\<open>out\<close> is \<^verbatim>\<open>Object.create( null )\<close>:
  it has no prototype, so every assignment sets an own property.\<close>

definition write_step :: "bool \<Rightarrow> 'u mval \<Rightarrow> 'u Mapper \<Rightarrow> props \<Rightarrow> (props, 'u) js" where
  "write_step dropU model f out =
     js_bind (call (write_fn f) model)
       (\<lambda>value. if dropU \<and> value = Undefined then js_return out
                 else js_bind (call (write_fn f) model)
                        (\<lambda>again. js_return (AList.update (name f) again out)))"

text \<open>\<^verbatim>\<open>Format.prototype.write\<close> (lines 114 to 133).\<close>

definition Format_write :: "'u Format \<Rightarrow> 'u mval \<Rightarrow> (jsval, 'u) js" where
  "Format_write this model =
     (if falsy_model model then js_return Null
      else js_try
             (js_bind (forEach (write_step (dropUndefined this) model)
                         (filter has_write (mappers this)) [])
                (\<lambda>out. js_return (Obj out)))
             (\<lambda>e. js_bind (console_log ''A format write completely exploded.'' e)
                (\<lambda>_. js_return Undefined)))"

text \<open>The overriding methods of the anonymous subclasses.\<close>

definition writeonly_read :: "bool \<Rightarrow> ('u mval, 'u) js" where
  "writeonly_read silent =
     js_bind (console_error ''This is a write only writer.'')
       (\<lambda>_. if \<not> silent then js_throw (Thrown (Str ''This is a write only writer''))
             else js_return (Plain Undefined))"

definition readonly_write :: "bool \<Rightarrow> (jsval, 'u) js" where
  "readonly_write silent =
     js_bind (console_error ''This is a read only writer.'')
       (\<lambda>_. if \<not> silent then js_throw (Thrown (Str ''This is a read only writer''))
             else js_return Undefined)"

text \<open>\<^verbatim>\<open>fmt.read( source )\<close> and \<^verbatim>\<open>fmt.write( model )\<close>: the method the instance's class
  provides.\<close>

definition invoke_read :: "'u Format \<Rightarrow> jsval \<Rightarrow> ('u mval, 'u) js" where
  "invoke_read fmt source =
     (case override fmt of ReadOverridden silent \<Rightarrow> writeonly_read silent
      | _ \<Rightarrow> Format_read fmt source)"

definition invoke_write :: "'u Format \<Rightarrow> 'u mval \<Rightarrow> (jsval, 'u) js" where
  "invoke_write fmt model =
     (case override fmt of WriteOverridden silent \<Rightarrow> readonly_write silent
      | _ \<Rightarrow> Format_write fmt model)"

text \<open>\<^verbatim>\<open>Format.writeonly( silent = true )\<close> and \<^verbatim>\<open>Format.readonly( silent = true )\<close>: the
  argument is optional; the subclass instance is built by the \<^verbatim>\<open>Format\<close> constructor
  from \<^verbatim>\<open>this._cl\<close> and \<^verbatim>\<open>this._mappers\<close>.\<close>

definition Format_writeonly :: "'u Format \<Rightarrow> bool option \<Rightarrow> exn + 'u Format" where
  "Format_writeonly this arg =
     (let silent = (case arg of None \<Rightarrow> True | Some b \<Rightarrow> b)
      in case Format (cl this) (mappers this) of
           Inl e \<Rightarrow> Inl e
         | Inr f \<Rightarrow> Inr (f\<lparr>override := ReadOverridden silent\<rparr>))"

definition Format_readonly :: "'u Format \<Rightarrow> bool option \<Rightarrow> exn + 'u Format" where
  "Format_readonly this arg =
     (let silent = (case arg of None \<Rightarrow> True | Some b \<Rightarrow> b)
      in case Format (cl this) (mappers this) of
           Inl e \<Rightarrow> Inl e
         | Inr f \<Rightarrow> Inr (f\<lparr>override := WriteOverridden silent\<rparr>))"

text \<open>\<^verbatim>\<open>Format.extend( cl, ...mappers )\<close>\<close>

definition Format_extend :: "'u Format \<Rightarrow> 'u Class option \<Rightarrow> 'u Mapper list \<Rightarrow> exn + 'u Format" where
  "Format_extend this c ms =
     (case c of
        None \<Rightarrow> Inl (InvariantViolation ''Format.extend should be called with a valid class'')
      | Some k \<Rightarrow> Format (Some k) (ms @ mappers this))"

text \<open>
  The formats a program can hold: built by the constructor, derived by \<^verbatim>\<open>extend\<close>,
  \<^verbatim>\<open>readonly\<close> or \<^verbatim>\<open>writeonly\<close>, with the public field \<^verbatim>\<open>dropUndefined\<close> possibly
  reassigned.
\<close>

inductive configured :: "'u Format \<Rightarrow> bool" where
  by_constructor: "Format c ms = Inr f \<Longrightarrow> configured f"
| by_extend: "configured f \<Longrightarrow> Format_extend f c ms = Inr g \<Longrightarrow> configured g"
| by_readonly: "configured f \<Longrightarrow> Format_readonly f arg = Inr g \<Longrightarrow> configured g"
| by_writeonly: "configured f \<Longrightarrow> Format_writeonly f arg = Inr g \<Longrightarrow> configured g"
| by_assignment: "configured f \<Longrightarrow> configured (f\<lparr>dropUndefined := b\<rparr>)"

text \<open>Whether the instance's class replaced \<^verbatim>\<open>read\<close>, respectively \<^verbatim>\<open>write\<close>.\<close>

definition read_replaced :: "'u Format \<Rightarrow> bool" where
  "read_replaced fmt = (case override fmt of ReadOverridden silent \<Rightarrow> True | _ \<Rightarrow> False)"

definition write_replaced :: "'u Format \<Rightarrow> bool" where
  "write_replaced fmt = (case override fmt of WriteOverridden silent \<Rightarrow> True | _ \<Rightarrow> False)"

section \<open>Observations and variants\<close>

text \<open>The mappers reachable from a \<^verbatim>\<open>NumberMapper\<close> by its refinements: \<^verbatim>\<open>abs\<close>, \<^verbatim>\<open>min\<close>,
  \<^verbatim>\<open>max\<close> and \<^verbatim>\<open>transform\<close>, in any number and order.\<close>

inductive refinement :: "coercion \<Rightarrow> 'u Mapper \<Rightarrow> 'u Mapper \<Rightarrow> bool" for coerce where
  unrefined: "refinement coerce nm nm"
| by_abs: "refinement coerce nm nm' \<Longrightarrow> refinement coerce nm (NumberMapper_abs coerce nm')"
| by_min: "refinement coerce nm nm' \<Longrightarrow> refinement coerce nm (NumberMapper_min coerce nm' b)"
| by_max: "refinement coerce nm nm' \<Longrightarrow> refinement coerce nm (NumberMapper_max coerce nm' b)"
| by_transform: "refinement coerce nm nm' \<Longrightarrow> refinement coerce nm (transform nm' readStep writeStep)"

text \<open>
  The assignments \<^verbatim>\<open>out[ f.modelName ] = value\<close> that the composed \<^verbatim>\<open>_read\<close> performs, in
  the order it performs them, up to the first exception: a result is not assigned when it
  is \<^verbatim>\<open>undefined\<close> and \<^verbatim>\<open>dropUndefined\<close> is set. Likewise the assignments
  \<^verbatim>\<open>out[ f.name ] = f.write( model )\<close> of \<^verbatim>\<open>Format.write\<close>, which assigns the result of the
  second call.
\<close>

fun read_assignments ::
  "'u Mapper list \<Rightarrow> bool \<Rightarrow> jsval \<Rightarrow> 'u entity \<Rightarrow> 'u world \<Rightarrow> (string \<times> jsval) list" where
  "read_assignments [] dropU source out w = []"
| "read_assignments (f # fs) dropU source out w =
     (case call (read_fn f) source w of
        (Inl e, w') \<Rightarrow> []
      | (Inr value, w') \<Rightarrow>
          if dropU \<and> value = Undefined then read_assignments fs dropU source out w'
          else (case set_member out (modelName f) value w' of
                  (Inl e, w'') \<Rightarrow> []
                | (Inr out', w'') \<Rightarrow>
                    (modelName f, value) # read_assignments fs dropU source out' w''))"

fun write_assignments ::
  "'u Mapper list \<Rightarrow> bool \<Rightarrow> 'u mval \<Rightarrow> 'u world \<Rightarrow> (string \<times> jsval) list" where
  "write_assignments [] dropU model w = []"
| "write_assignments (f # fs) dropU model w =
     (case call (write_fn f) model w of
        (Inl e, w') \<Rightarrow> []
      | (Inr value, w') \<Rightarrow>
          if dropU \<and> value = Undefined then write_assignments fs dropU model w'
          else (case call (write_fn f) model w' of
                  (Inl e, w'') \<Rightarrow> []
                | (Inr again, w'') \<Rightarrow> (name f, again) # write_assignments fs dropU model w''))"

text \<open>The value a sequence of assignments leaves under a key: that of the last assignment
  to the key.\<close>

definition last_assignment :: "(string \<times> jsval) list \<Rightarrow> string \<Rightarrow> jsval option" where
  "last_assignment assignments k = map_of (rev assignments) k"

text \<open>
  What makes a field \<open>x\<close> of a class a plain data field, as far as a format is concerned:
  an assignment to \<open>x\<close> that returns leaves \<open>x\<close> reading the assigned value (no setter
  intercepts it), and an assignment to another key \<open>k\<close> that returns leaves \<open>x\<close> as it
  reads (no setter for \<open>k\<close>, nor \<^verbatim>\<open>__proto__\<close>, redefines it).
\<close>

definition sticks :: "'u Class \<Rightarrow> string \<Rightarrow> bool" where
  "sticks c x =
     (\<forall>v i w i' w'. assign c x v i w = (Inr i', w') \<longrightarrow> (\<forall>u. lookup c i' x u = (Inr v, u)))"

definition keeps :: "'u Class \<Rightarrow> string \<Rightarrow> string \<Rightarrow> bool" where
  "keeps c k x =
     (\<forall>v i w i' w'. assign c k v i w = (Inr i', w') \<longrightarrow> lookup c i' x = lookup c i x)"






section \<open>Concrete inputs\<close>

text \<open>A world with an empty console, entity classes without accessors, and the formats the
  examples below are evaluated on. The formats are written out as the constructor builds
  them.\<close>

definition w0 :: "unit world" where
  "w0 = \<lparr>console = [], store = ()\<rparr>"

definition Foo :: "unit Class" where
  "Foo = js_class (js_return []) no_accessors"

definition Bar :: "unit Class" where
  "Bar = js_class (js_return [(''kind'', Str ''Bar'')]) no_accessors"

definition Probe :: "nat Class" where
  "Probe = js_class (js_return []) no_accessors"

text \<open>The fresh instances of these classes, and an instance of \<^verbatim>\<open>Foo\<close> with one field.\<close>

definition fresh :: objstate where
  "fresh = \<lparr>own = [], prototype = ClassPrototype\<rparr>"

definition holding :: "props \<Rightarrow> objstate" where
  "holding ps = \<lparr>own = ps, prototype = ClassPrototype\<rparr>"

definition foo_format :: "unit Format" where
  "foo_format =
     \<lparr>cl = Some Foo, mappers = [json [''bar'']], dropUndefined = True,
      private_read = read_step (json [''bar'']), override = NoOverride\<rparr>"

definition foo_readonly :: "unit Format" where
  "foo_readonly = foo_format\<lparr>override := WriteOverridden True\<rparr>"

definition foo_writeonly :: "unit Format" where
  "foo_writeonly = foo_format\<lparr>override := ReadOverridden True\<rparr>"

text \<open>The accessors of the class \<^verbatim>\<open>Test\<close> of \<^verbatim>\<open>src/test/JsonTest.js\<close>:
  \<^verbatim>\<open>set readonly( value ) { this._readonly = '...'; }\<close> and
  \<^verbatim>\<open>get writeonly() { return '...'; }\<close>.\<close>

definition test_accessors :: "string \<Rightarrow> unit accessor option" where
  "test_accessors k =
     (if k = ''readonly'' then
        Some \<lparr>getter = None,
              setter = Some (\<lambda>v i. js_return
                (i\<lparr>own := AList.update ''_readonly''
                            (Str ''this will never be set from the JSON to here'') (own i)\<rparr>))\<rparr>
      else if k = ''writeonly'' then
        Some \<lparr>getter = Some (\<lambda>i. js_return (Str ''this will never be set to the JSON from here'')),
              setter = None\<rparr>
      else None)"

definition Test :: "unit Class" where
  "Test = js_class (js_return []) test_accessors"

definition test_format :: "unit Format" where
  "test_format =
     \<lparr>cl = Some Test, mappers = [json [''isoMapping''], Mapper_readonly (json [''readonly''])],
      dropUndefined = True,
      private_read = seq_step (read_step (json [''isoMapping'']))
                       (read_step (Mapper_readonly (json [''readonly'']))),
      override = NoOverride\<rparr>"

text \<open>A coercion for data without numeric strings: every string, object and array
  converts to \<^verbatim>\<open>NaN\<close>.\<close>

definition nan_coercion :: coercion where
  "nan_coercion v = Inr NaN"

text \<open>Mappers whose functions count their calls in the store (the second one writes
  \<^verbatim>\<open>undefined\<close>), and one whose functions throw.\<close>

definition counting_mapper :: "nat Mapper" where
  "counting_mapper =
     \<lparr>mclass = MapperClass, name = ''n'', modelName = ''n'',
      read_fn = Some (\<lambda>j w. (Inr (Num (Fin 1)), w\<lparr>store := Suc (store w)\<rparr>)),
      write_fn = Some (\<lambda>m w. (Inr (Num (Fin 1)), w\<lparr>store := Suc (store w)\<rparr>))\<rparr>"


definition exploding_mapper :: "nat Mapper" where
  "exploding_mapper =
     \<lparr>mclass = MapperClass, name = ''boom'', modelName = ''boom'',
      read_fn = Some (\<lambda>j. js_throw (Thrown (Str ''boom''))),
      write_fn = Some (\<lambda>m. js_throw (Thrown (Str ''boom'')))\<rparr>"

definition exploding_format :: "nat Format" where
  "exploding_format =
     \<lparr>cl = Some Probe, mappers = [counting_mapper, exploding_mapper, counting_mapper],
      dropUndefined = True,
      private_read = seq_step (seq_step (read_step counting_mapper) (read_step exploding_mapper))
                       (read_step counting_mapper),
      override = NoOverride\<rparr>"



text \<open>Formats with two mappers for one field: a read-only mapper followed by a write-only
  one (as for \<^verbatim>\<open>stringBoolean\<close> in \<^verbatim>\<open>src/test/JsonTest.js\<close>), and \<^verbatim>\<open>json`x`\<close> followed by
  \<^verbatim>\<open>json`y`.to( 'x' )\<close>, directly or with \<^verbatim>\<open>json`k`\<close> in between. A base format with
  \<^verbatim>\<open>json`k`\<close> and \<^verbatim>\<open>json`y`.to( 'x' )\<close> that \<^verbatim>\<open>extend\<close> is applied to with \<^verbatim>\<open>json`x`\<close>. A format
  that renames a field between two others.\<close>

definition split_format :: "unit Format" where
  "split_format =
     \<lparr>cl = Some Foo,
      mappers = [Mapper_readonly (json [''x'']), Mapper_writeonly (json [''x''])],
      dropUndefined = True,
      private_read = seq_step (read_step (Mapper_readonly (json [''x''])))
                       (read_step (Mapper_writeonly (json [''x'']))),
      override = NoOverride\<rparr>"


definition order_format :: "unit Format" where
  "order_format =
     \<lparr>cl = Some Foo,
      mappers = [json [''x''], json [''k''], JsonValue_to (json [''y'']) ''x''],
      dropUndefined = True,
      private_read = seq_step (seq_step (read_step (json [''x''])) (read_step (json [''k''])))
                       (read_step (JsonValue_to (json [''y'']) ''x'')),
      override = NoOverride\<rparr>"

definition base_format :: "unit Format" where
  "base_format =
     \<lparr>cl = Some Foo, mappers = [json [''k''], JsonValue_to (json [''y'']) ''x''],
      dropUndefined = True,
      private_read = seq_step (read_step (json [''k'']))
                       (read_step (JsonValue_to (json [''y'']) ''x'')),
      override = NoOverride\<rparr>"

definition extended_format :: "unit Format" where
  "extended_format =
     \<lparr>cl = Some Bar,
      mappers = [json [''x''], json [''k''], JsonValue_to (json [''y'']) ''x''],
      dropUndefined = True,
      private_read = seq_step (seq_step (read_step (json [''x''])) (read_step (json [''k''])))
                       (read_step (JsonValue_to (json [''y'']) ''x'')),
      override = NoOverride\<rparr>"


section \<open>Basic facts\<close>

lemma js_bind_return [simp]: "js_bind (js_return x) k = k x"
  by (rule ext) (simp add: js_bind_def js_return_def)

lemma js_bind_throw [simp]: "js_bind (js_throw e) k = js_throw e"
  by (rule ext) (simp add: js_bind_def js_throw_def)

lemma js_bind_assoc: "js_bind (js_bind m k) h = js_bind m (\<lambda>x. js_bind (k x) h)"
  by (rule ext) (simp add: js_bind_def split: prod.splits sum.splits)

lemma js_bind_Inl: "m w = (Inl e, w') \<Longrightarrow> js_bind m k w = (Inl e, w')"
  by (simp add: js_bind_def)

lemma js_bind_Inr: "m w = (Inr x, w') \<Longrightarrow> js_bind m k w = k x w'"
  by (simp add: js_bind_def)

lemma call_Some [simp]: "call (Some g) x = g x"
  by (simp add: call_def)

lemma has_write_iff [simp]: "has_write f \<longleftrightarrow> write_fn f \<noteq> None"
  by (simp add: has_write_def split: option.splits)

lemma json_Cons:
  "json (k # ks) =
     \<lparr>mclass = JsonValueClass, name = k, modelName = k,
      read_fn = Some (\<lambda>j. js_lift (get_prop j k)),
      write_fn = Some (\<lambda>m. member m k)\<rparr>"
  by (simp add: json_def Let_def)

lemma forEach_Cons: "forEach g (x # xs) = (\<lambda>out. js_bind (g x out) (forEach g xs))"
  by (rule ext) simp

lemma forEach_append:
  "forEach g (xs @ ys) out w = js_bind (forEach g xs out) (forEach g ys) w"
  by (induction xs arbitrary: out w) (simp_all add: js_bind_def split: prod.splits sum.splits)

text \<open>The left-nested composition that \<^verbatim>\<open>reduce\<close> builds runs the steps in list order.\<close>

lemma foldl_seq_step:
  "foldl seq_step a (map read_step ms) d source out =
     js_bind (a d source out) (forEach (\<lambda>f. read_step f d source) ms)"
proof (induction ms arbitrary: a)
  case Nil
  show ?case
    by (rule ext) (simp add: js_bind_def js_return_def split: prod.splits sum.splits)
next
  case (Cons m ms)
  have "foldl seq_step a (map read_step (m # ms)) d source out =
          js_bind (seq_step a (read_step m) d source out) (forEach (\<lambda>f. read_step f d source) ms)"
    by (simp add: Cons.IH)
  also have "\<dots> = js_bind (js_bind (a d source out) (read_step m d source))
                      (forEach (\<lambda>f. read_step f d source) ms)"
    by (simp add: seq_step_def)
  also have "\<dots> = js_bind (a d source out) (forEach (\<lambda>f. read_step f d source) (m # ms))"
    by (simp add: js_bind_assoc forEach_Cons)
  finally show ?case .
qed

lemma Format_Inr:
  assumes "Format c ms = Inr f"
  shows "ms \<noteq> []" and "cl f = c" and "mappers f = ms" and "dropUndefined f"
    and "override f = NoOverride"
    and "private_read f d source out = forEach (\<lambda>m. read_step m d source) ms out"
  using assms
  by (auto simp: Format_def reduce_def foldl_seq_step split: list.splits)

lemma Format_nonempty:
  assumes "ms \<noteq> []"
  shows "\<exists>f. Format c ms = Inr f"
  using assms by (cases ms) (simp_all add: Format_def reduce_def)

lemma configured_invariant:
  assumes "configured f"
  shows "mappers f \<noteq> [] \<and>
         (\<forall>d source out. private_read f d source out =
            forEach (\<lambda>m. read_step m d source) (mappers f) out)"
  using assms
proof (induction rule: configured.induct)
  case (by_constructor c ms f)
  then show ?case using Format_Inr [of c ms f] by simp
next
  case (by_extend f c ms g)
  then obtain k where "Format (Some k) (ms @ mappers f) = Inr g"
    by (auto simp: Format_extend_def split: option.splits)
  then show ?case using Format_Inr [of "Some k" "ms @ mappers f" g] by simp
next
  case (by_readonly f arg g)
  then obtain h where h: "Format (cl f) (mappers f) = Inr h"
    and g: "g = h\<lparr>override := WriteOverridden (case arg of None \<Rightarrow> True | Some b \<Rightarrow> b)\<rparr>"
    by (auto simp: Format_readonly_def Let_def split: sum.splits)
  show ?case using Format_Inr [OF h] by (simp add: g)
next
  case (by_writeonly f arg g)
  then obtain h where h: "Format (cl f) (mappers f) = Inr h"
    and g: "g = h\<lparr>override := ReadOverridden (case arg of None \<Rightarrow> True | Some b \<Rightarrow> b)\<rparr>"
    by (auto simp: Format_writeonly_def Let_def split: sum.splits)
  show ?case using Format_Inr [OF h] by (simp add: g)
next
  case (by_assignment f b)
  then show ?case by simp
qed

lemma configured_private_read:
  "configured f \<Longrightarrow>
     private_read f d source out = forEach (\<lambda>m. read_step m d source) (mappers f) out"
  using configured_invariant by blast

lemma configured_nonempty: "configured f \<Longrightarrow> mappers f \<noteq> []"
  using configured_invariant by blast

lemma foo_format_constructed: "Format (Some Foo) [json [''bar'']] = Inr foo_format"
  by (simp add: Format_def reduce_def foo_format_def)

lemma foo_format_configured: "configured foo_format"
  by (rule by_constructor [OF foo_format_constructed])

lemma foo_readonly_derived: "Format_readonly foo_format None = Inr foo_readonly"
  by (simp add: Format_readonly_def foo_readonly_def foo_format_def Format_def reduce_def)

lemma foo_writeonly_derived: "Format_writeonly foo_format None = Inr foo_writeonly"
  by (simp add: Format_writeonly_def foo_writeonly_def foo_format_def Format_def reduce_def)

lemma foo_readonly_configured: "configured foo_readonly"
  by (rule by_readonly [OF foo_format_configured foo_readonly_derived])

lemma foo_writeonly_configured: "configured foo_writeonly"
  by (rule by_writeonly [OF foo_format_configured foo_writeonly_derived])

section \<open>Entities and their fields\<close>

lemma set_member_Inr:
  "set_member out k v w = (Inr out', w') \<longleftrightarrow>
     fst out' = fst out \<and> assign (fst out) k v (snd out) w = (Inr (snd out'), w')"
  by (cases out') (auto simp: set_member_def js_bind_def js_return_def split: prod.splits sum.splits)

lemma js_class_sel [simp]:
  "assign (js_class ctor accs) = ordinary_set accs"
  "lookup (js_class ctor accs) = ordinary_get accs"
  "construct (js_class ctor accs) =
     js_bind ctor (\<lambda>ps. js_return \<lparr>own = ps, prototype = ClassPrototype\<rparr>)"
  by (simp_all add: js_class_def)

text \<open>In a class declared in JavaScript, a key without accessor other than \<^verbatim>\<open>__proto__\<close> is
  a plain data field.\<close>

lemma ordinary_set_data:
  assumes "accs k = None" and "k \<noteq> ''__proto__''"
  shows "ordinary_set accs k v i w = (Inr (i\<lparr>own := AList.update k v (own i)\<rparr>), w)"
  using assms
  by (simp add: ordinary_set_def js_return_def split: option.splits proto.splits)

lemma ordinary_get_own:
  assumes "map_of (own i) k = Some v"
  shows "ordinary_get accs i k w = (Inr v, w)"
  using assms by (simp add: ordinary_get_def js_return_def)

lemma js_class_sticks:
  assumes "accs x = None" and "x \<noteq> ''__proto__''"
  shows "sticks (js_class ctor accs) x"
  using assms
  by (auto simp: sticks_def ordinary_set_data ordinary_get_own update_conv')

lemma js_class_keeps:
  assumes "accs k = None" and "k \<noteq> ''__proto__''" and "k \<noteq> x" and "accs x = None"
  shows "keeps (js_class ctor accs) k x"
proof -
  have "ordinary_get accs (i\<lparr>own := AList.update k v (own i)\<rparr>) x = ordinary_get accs i x" for v i
    using assms(3,4) by (simp add: ordinary_get_def update_conv' split: option.splits proto.splits)
  then show ?thesis
    using assms(1,2) by (auto simp: keeps_def ordinary_set_data)
qed

text \<open>The setter of the repository's test class intercepts the assignment: after reading
  \<^verbatim>\<open>{ isoMapping: 'a', readonly: 'b' }\<close> the instance has the own properties \<^verbatim>\<open>isoMapping\<close>
  and \<^verbatim>\<open>_readonly\<close>, and its \<^verbatim>\<open>readonly\<close> reads \<^verbatim>\<open>undefined\<close>.\<close>

lemma test_format_constructed:
  "Format (Some Test) [json [''isoMapping''], Mapper_readonly (json [''readonly''])] =
     Inr test_format"
  by (simp add: Format_def reduce_def test_format_def)

lemma setter_intercepts:
  "Format_read test_format (Obj [(''isoMapping'', Str ''a''), (''readonly'', Str ''b'')]) w0 =
     (Inr (Inst (Test, holding [(''isoMapping'', Str ''a''),
                               (''_readonly'', Str ''this will never be set from the JSON to here'')])),
      w0)"
  "get_member (Test, holding [(''isoMapping'', Str ''a''),
                (''_readonly'', Str ''this will never be set from the JSON to here'')]) ''readonly'' w0 =
     (Inr Undefined, w0)"
  by (simp_all add: Format_read_def test_format_def seq_step_def read_step_def new_def Test_def
        test_accessors_def json_Cons Mapper_readonly_def set_member_def get_member_def
        ordinary_set_def ordinary_get_def holding_def
        js_try_def js_bind_def js_return_def js_lift_def)

section \<open>Absent and falsy input\<close>

lemma Format_read_falsy: "falsy v \<Longrightarrow> Format_read fmt v w = (Inr (Plain Null), w)"
  by (simp add: Format_read_def js_return_def)

lemma Format_write_falsy: "falsy v \<Longrightarrow> Format_write fmt (Plain v) w = (Inr Null, w)"
  by (simp add: Format_write_def js_return_def)

lemma invoke_read_kept: "\<not> read_replaced fmt \<Longrightarrow> invoke_read fmt = Format_read fmt"
  by (rule ext) (simp add: invoke_read_def read_replaced_def split: override.splits)

lemma invoke_write_kept: "\<not> write_replaced fmt \<Longrightarrow> invoke_write fmt = Format_write fmt"
  by (rule ext) (simp add: invoke_write_def write_replaced_def split: override.splits)

text \<open>
  C2, as amended. The method \<^verbatim>\<open>Format.prototype.read\<close> returns \<^verbatim>\<open>null\<close> on \<^verbatim>\<open>null\<close> and on
  \<^verbatim>\<open>undefined\<close> and leaves the world untouched, and so does \<^verbatim>\<open>Format.prototype.write\<close>.
  Hence \<^verbatim>\<open>fmt.read( null ) === null\<close> for every format whose \<^verbatim>\<open>read\<close> was not replaced
  by \<^verbatim>\<open>writeonly()\<close>, and \<^verbatim>\<open>fmt.write( null ) === null\<close> for every format whose \<^verbatim>\<open>write\<close>
  was not replaced by \<^verbatim>\<open>readonly()\<close>.
\<close>

theorem absent_input_yields_null:
  "Format_read fmt Null w = (Inr (Plain Null), w) \<and>
   Format_read fmt Undefined w = (Inr (Plain Null), w) \<and>
   Format_write fmt (Plain Null) w = (Inr Null, w) \<and>
   Format_write fmt (Plain Undefined) w = (Inr Null, w) \<and>
   (\<not> read_replaced fmt \<longrightarrow>
      invoke_read fmt Null w = (Inr (Plain Null), w) \<and>
      invoke_read fmt Undefined w = (Inr (Plain Null), w)) \<and>
   (\<not> write_replaced fmt \<longrightarrow>
      invoke_write fmt (Plain Null) w = (Inr Null, w) \<and>
      invoke_write fmt (Plain Undefined) w = (Inr Null, w))"
  by (simp add: Format_read_falsy Format_write_falsy invoke_read_kept invoke_write_kept)

theorem absent_input_yields_null_witness:
  "configured foo_format \<and> \<not> read_replaced foo_format \<and> \<not> write_replaced foo_format \<and>
   invoke_read foo_format Null w0 = (Inr (Plain Null), w0) \<and>
   invoke_read foo_format Undefined w0 = (Inr (Plain Null), w0) \<and>
   invoke_write foo_format (Plain Null) w0 = (Inr Null, w0) \<and>
   invoke_write foo_format (Plain Undefined) w0 = (Inr Null, w0)"
proof -
  have kept: "\<not> read_replaced foo_format" "\<not> write_replaced foo_format"
    by (simp_all add: read_replaced_def write_replaced_def foo_format_def)
  show ?thesis
    using absent_input_yields_null [of foo_format w0] kept foo_format_configured by simp
qed

text \<open>
  C2 as stated fails on a format derived by \<^verbatim>\<open>readonly()\<close>: its \<^verbatim>\<open>write( null )\<close> logs an
  error and returns \<^verbatim>\<open>undefined\<close>, not \<^verbatim>\<open>null\<close>.
\<close>

theorem readonly_write_null_counterexample:
  "Format (Some Foo) [json [''bar'']] = Inr foo_format \<and>
   Format_readonly foo_format None = Inr foo_readonly \<and>
   configured foo_readonly \<and>
   invoke_write foo_readonly (Plain Null) w0 =
     (Inr Undefined, \<lparr>console = [ConsoleError ''This is a read only writer.''], store = ()\<rparr>) \<and>
   invoke_write foo_readonly (Plain Null) w0 \<noteq> (Inr Null, w0)"
  by (simp add: foo_format_constructed foo_readonly_derived foo_readonly_configured)
     (simp add: invoke_write_def foo_readonly_def foo_format_def readonly_write_def
        console_error_def js_bind_def js_return_def w0_def)

text \<open>
  C10, as amended. Every falsy value (\<^verbatim>\<open>undefined\<close>, \<^verbatim>\<open>null\<close>, \<^verbatim>\<open>false\<close>, \<^verbatim>\<open>NaN\<close>, zero,
  the empty string) is treated as absent by \<^verbatim>\<open>Format.prototype.read\<close> and
  \<^verbatim>\<open>Format.prototype.write\<close>: they return \<^verbatim>\<open>null\<close>. So \<^verbatim>\<open>fmt.read\<close> returns \<^verbatim>\<open>null\<close> for
  every falsy source unless \<^verbatim>\<open>writeonly()\<close> replaced it, and \<^verbatim>\<open>fmt.write\<close> returns
  \<^verbatim>\<open>null\<close> for every falsy model unless \<^verbatim>\<open>readonly()\<close> replaced it.
\<close>

theorem falsy_input_yields_null:
  assumes "falsy v"
  shows "Format_read fmt v w = (Inr (Plain Null), w) \<and>
         Format_write fmt (Plain v) w = (Inr Null, w) \<and>
         (\<not> read_replaced fmt \<longrightarrow> invoke_read fmt v w = (Inr (Plain Null), w)) \<and>
         (\<not> write_replaced fmt \<longrightarrow> invoke_write fmt (Plain v) w = (Inr Null, w))"
  using assms
  by (simp add: Format_read_falsy Format_write_falsy invoke_read_kept invoke_write_kept)

theorem falsy_input_yields_null_witness:
  "falsy (Num (Fin 0)) \<and> falsy (Str []) \<and> falsy (Bool False) \<and> falsy (Num NaN) \<and>
   invoke_read foo_format (Num (Fin 0)) w0 = (Inr (Plain Null), w0) \<and>
   invoke_write foo_format (Plain (Num (Fin 0))) w0 = (Inr Null, w0) \<and>
   invoke_read foo_format (Str []) w0 = (Inr (Plain Null), w0) \<and>
   invoke_write foo_format (Plain (Bool False)) w0 = (Inr Null, w0) \<and>
   invoke_read foo_format (Num NaN) w0 = (Inr (Plain Null), w0)"
proof -
  have kept: "\<not> read_replaced foo_format" "\<not> write_replaced foo_format"
    by (simp_all add: read_replaced_def write_replaced_def foo_format_def)
  show ?thesis
    using falsy_input_yields_null [of "Num (Fin 0)" foo_format w0]
      falsy_input_yields_null [of "Str []" foo_format w0]
      falsy_input_yields_null [of "Bool False" foo_format w0]
      falsy_input_yields_null [of "Num NaN" foo_format w0] kept
    by simp
qed

text \<open>
  C10 as stated fails on a format derived by \<^verbatim>\<open>writeonly()\<close>: its \<^verbatim>\<open>read( 0 )\<close> logs an
  error and returns \<^verbatim>\<open>undefined\<close>, not \<^verbatim>\<open>null\<close>.
\<close>

theorem writeonly_read_zero_counterexample:
  "Format_writeonly foo_format None = Inr foo_writeonly \<and>
   configured foo_writeonly \<and>
   falsy (Num (Fin 0)) \<and>
   invoke_read foo_writeonly (Num (Fin 0)) w0 =
     (Inr (Plain Undefined),
      \<lparr>console = [ConsoleError ''This is a write only writer.''], store = ()\<rparr>) \<and>
   invoke_read foo_writeonly (Num (Fin 0)) w0 \<noteq> (Inr (Plain Null), w0)"
  by (simp add: foo_writeonly_derived foo_writeonly_configured)
     (simp add: invoke_read_def foo_writeonly_def foo_format_def writeonly_read_def
        console_error_def js_bind_def js_return_def w0_def)

section \<open>Read-only and write-only formats\<close>

lemma readonly_write_run:
  "readonly_write silent w =
     (if silent then Inr Undefined else Inl (Thrown (Str ''This is a read only writer'')),
      w\<lparr>console := console w @ [ConsoleError ''This is a read only writer.'']\<rparr>)"
  by (simp add: readonly_write_def console_error_def js_bind_def js_return_def js_throw_def)

lemma writeonly_read_run:
  "writeonly_read silent w =
     (if silent then Inr (Plain Undefined) else Inl (Thrown (Str ''This is a write only writer'')),
      w\<lparr>console := console w @ [ConsoleError ''This is a write only writer.'']\<rparr>)"
  by (simp add: writeonly_read_def console_error_def js_bind_def js_return_def js_throw_def)

lemma silent_default: "(case arg of None \<Rightarrow> True | Some b \<Rightarrow> b) = (arg \<noteq> Some False)"
  by (cases arg) auto

text \<open>
  C5. For a configured format \<open>f\<close> and an optional boolean \<open>arg\<close> (\<open>None\<close>: the argument is
  omitted and \<^verbatim>\<open>silent\<close> defaults to \<^verbatim>\<open>true\<close>), \<^verbatim>\<open>f.readonly( arg )\<close> returns a format with
  the mapper list and the entity class of \<open>f\<close> whose \<^verbatim>\<open>write\<close>, on every call, appends an
  error to the console and then throws if \<open>arg\<close> is \<^verbatim>\<open>false\<close> and returns \<^verbatim>\<open>undefined\<close>
  otherwise; \<^verbatim>\<open>f.writeonly( arg )\<close> does the same to \<^verbatim>\<open>read\<close>.
\<close>

theorem direction_violation:
  assumes "configured f"
  shows "(\<exists>g. Format_readonly f arg = Inr g \<and> mappers g = mappers f \<and> cl g = cl f \<and>
            (\<forall>model w. invoke_write g model w =
               (if arg = Some False then Inl (Thrown (Str ''This is a read only writer''))
                else Inr Undefined,
                w\<lparr>console := console w @ [ConsoleError ''This is a read only writer.'']\<rparr>))) \<and>
         (\<exists>g. Format_writeonly f arg = Inr g \<and> mappers g = mappers f \<and> cl g = cl f \<and>
            (\<forall>source w. invoke_read g source w =
               (if arg = Some False then Inl (Thrown (Str ''This is a write only writer''))
                else Inr (Plain Undefined),
                w\<lparr>console := console w @ [ConsoleError ''This is a write only writer.'']\<rparr>)))"
proof -
  obtain h where h: "Format (cl f) (mappers f) = Inr h"
    using Format_nonempty [OF configured_nonempty [OF assms]] by blast
  have hm: "mappers h = mappers f" and hc: "cl h = cl f"
    using Format_Inr [OF h] by simp_all
  let ?silent = "case arg of None \<Rightarrow> True | Some b \<Rightarrow> b"
  have ro: "Format_readonly f arg = Inr (h\<lparr>override := WriteOverridden ?silent\<rparr>)"
    by (simp add: Format_readonly_def h)
  have wo: "Format_writeonly f arg = Inr (h\<lparr>override := ReadOverridden ?silent\<rparr>)"
    by (simp add: Format_writeonly_def h)
  have w: "invoke_write (h\<lparr>override := WriteOverridden ?silent\<rparr>) model w =
             (if arg = Some False then Inl (Thrown (Str ''This is a read only writer''))
              else Inr Undefined,
              w\<lparr>console := console w @ [ConsoleError ''This is a read only writer.'']\<rparr>)"
    for model w
    by (simp add: invoke_write_def readonly_write_run silent_default)
  have r: "invoke_read (h\<lparr>override := ReadOverridden ?silent\<rparr>) source w =
             (if arg = Some False then Inl (Thrown (Str ''This is a write only writer''))
              else Inr (Plain Undefined),
              w\<lparr>console := console w @ [ConsoleError ''This is a write only writer.'']\<rparr>)"
    for source w
    by (simp add: invoke_read_def writeonly_read_run silent_default)
  show ?thesis
    using ro wo w r hm hc by simp
qed

theorem direction_violation_witness:
  "configured foo_format \<and>
   Format_readonly foo_format None = Inr foo_readonly \<and>
   mappers foo_readonly = mappers foo_format \<and> cl foo_readonly = cl foo_format \<and>
   invoke_write foo_readonly (Inst (Foo, holding [(''bar'', Str ''x'')])) w0 =
     (Inr Undefined, \<lparr>console = [ConsoleError ''This is a read only writer.''], store = ()\<rparr>) \<and>
   Format_writeonly foo_format (Some False) = Inr (foo_format\<lparr>override := ReadOverridden False\<rparr>) \<and>
   invoke_read (foo_format\<lparr>override := ReadOverridden False\<rparr>) (Obj [(''bar'', Str ''x'')]) w0 =
     (Inl (Thrown (Str ''This is a write only writer'')),
      \<lparr>console = [ConsoleError ''This is a write only writer.''], store = ()\<rparr>)"
proof -
  have wo: "Format_writeonly foo_format (Some False) =
              Inr (foo_format\<lparr>override := ReadOverridden False\<rparr>)"
    by (simp add: Format_writeonly_def foo_format_def Format_def reduce_def)
  show ?thesis
    using direction_violation [OF foo_format_configured, of None]
      direction_violation [OF foo_format_configured, of "Some False"]
      foo_readonly_derived wo foo_format_configured
    by (auto simp: w0_def)
qed

section \<open>Number mappers\<close>

lemma transform_NumberMapper:
  assumes "mclass nm = NumberMapperClass"
  shows "transform nm readStep writeStep = NumberMapper_transform nm readStep writeStep"
  using assms by (simp add: transform_def)

lemma refinement_keeps_write:
  assumes "refinement coerce nm nm'" and "mclass nm = NumberMapperClass"
  shows "mclass nm' = NumberMapperClass \<and> write_fn nm' = write_fn nm"
  using assms
  by (induction rule: refinement.induct)
     (simp_all add: NumberMapper_abs_def NumberMapper_min_def NumberMapper_max_def
        transform_NumberMapper NumberMapper_transform_def)

text \<open>
  C9. For a \<^verbatim>\<open>NumberMapper\<close> \<open>nm\<close> and any two functions, \<^verbatim>\<open>nm.transform( readStep, writeStep )\<close>
  has the write function of \<open>nm\<close>: \<open>writeStep\<close> is dropped. Hence whatever chain of
  \<^verbatim>\<open>abs\<close>, \<^verbatim>\<open>min\<close>, \<^verbatim>\<open>max\<close> and \<^verbatim>\<open>transform\<close> refines \<open>nm\<close>, the write function stays that
  of \<open>nm\<close>.
\<close>

theorem NumberMapper_write_unchanged:
  assumes "mclass nm = NumberMapperClass"
  shows "write_fn (transform nm readStep writeStep) = write_fn nm \<and>
         write_fn (NumberMapper_transform nm readStep writeStep) = write_fn nm \<and>
         (refinement coerce nm nm' \<longrightarrow> write_fn nm' = write_fn nm)"
  using assms refinement_keeps_write [of coerce nm nm']
  by (simp add: transform_NumberMapper NumberMapper_transform_def)

theorem NumberMapper_write_unchanged_witness:
  "mclass (number nan_coercion [''b''] :: unit Mapper) = NumberMapperClass \<and>
   write_fn (transform (number nan_coercion [''b''] :: unit Mapper)
               (\<lambda>v. js_return v) (\<lambda>v. js_return Null)) =
     write_fn (number nan_coercion [''b''] :: unit Mapper) \<and>
   refinement nan_coercion (number nan_coercion [''b''] :: unit Mapper)
     (NumberMapper_max nan_coercion (NumberMapper_abs nan_coercion (number nan_coercion [''b''])) (Fin 10)) \<and>
   call (write_fn (NumberMapper_max nan_coercion
                     (NumberMapper_abs nan_coercion (number nan_coercion [''b''] :: unit Mapper)) (Fin 10)))
     (Plain (Obj [(''b'', Num (Fin (- 16)))])) w0 = (Inr (Num (Fin (- 16))), w0)"
proof -
  let ?nm = "number nan_coercion [''b''] :: unit Mapper"
  let ?nm' = "NumberMapper_max nan_coercion (NumberMapper_abs nan_coercion ?nm) (Fin 10)"
  have c: "mclass ?nm = NumberMapperClass"
    by (simp add: number_def Mapper_number_def)
  have r: "refinement nan_coercion ?nm ?nm'"
    by (intro by_max by_abs unrefined)
  have w: "call (write_fn ?nm) (Plain (Obj [(''b'', Num (Fin (- 16)))])) w0 =
             (Inr (Num (Fin (- 16))), w0)"
    by (simp add: number_def Mapper_number_def json_Cons js_lift_def)
  show ?thesis
    using NumberMapper_write_unchanged [OF c, of "\<lambda>v. js_return v" "\<lambda>v. js_return Null" nan_coercion ?nm']
      c r w
    by simp
qed

lemma num_max_greater:
  assumes "a \<noteq> NaN"
  shows "num_max a b = (if b = NaN then NaN else if num_le a b then b else a)"
  using assms by (cases a; cases b) (simp_all add: max_def)

lemma num_min_lesser:
  assumes "a \<noteq> NaN"
  shows "num_min a b = (if b = NaN then NaN else if num_le a b then a else b)"
  using assms by (cases a; cases b) (simp_all add: min_def)

lemma NumberMapper_min_read:
  assumes "mclass nm = NumberMapperClass" and "call (read_fn nm) source w = (Inr v, w')"
  shows "call (read_fn (NumberMapper_min coerce nm b)) source w =
           (if falsy v then (Inr (Num b), w') else (Math_max coerce v (Num b), w'))"
  using assms
  by (simp add: NumberMapper_min_def transform_NumberMapper NumberMapper_transform_def
        js_bind_def js_lift_def js_return_def)

lemma NumberMapper_max_read:
  assumes "mclass nm = NumberMapperClass" and "call (read_fn nm) source w = (Inr v, w')"
  shows "call (read_fn (NumberMapper_max coerce nm b)) source w =
           (if falsy v then (Inr (Num b), w') else (Math_min coerce v (Num b), w'))"
  using assms
  by (simp add: NumberMapper_max_def transform_NumberMapper NumberMapper_transform_def
        js_bind_def js_lift_def js_return_def)

lemma NumberMapper_abs_read:
  assumes "mclass nm = NumberMapperClass" and "call (read_fn nm) source w = (Inr v, w')"
  shows "call (read_fn (NumberMapper_abs coerce nm)) source w =
           (if falsy v then (Inr v, w') else (Math_abs coerce v, w'))"
  using assms
  by (simp add: NumberMapper_abs_def transform_NumberMapper NumberMapper_transform_def
        js_bind_def js_lift_def js_return_def)

lemma number_class: "mclass (number coerce strings) = NumberMapperClass"
  by (simp add: number_def Mapper_number_def)

lemma number_read_Num:
  "call (read_fn (number coerce [k])) (Obj [(k, Num n)]) w = (Inr (Num n), w)"
  by (simp add: number_def Mapper_number_def json_Cons js_bind_def js_lift_def js_return_def)

text \<open>
  C7. Let \<open>nm\<close> be a \<^verbatim>\<open>NumberMapper\<close> whose read yields \<open>v\<close> on some source. If \<open>v\<close> is
  falsy, \<^verbatim>\<open>nm.min( b )\<close> and \<^verbatim>\<open>nm.max( b )\<close> read the bound \<open>b\<close> and \<^verbatim>\<open>nm.abs()\<close> reads \<open>v\<close>
  unchanged. If \<open>v\<close> is a number \<open>a\<close> that is not falsy, \<^verbatim>\<open>nm.min( b )\<close> reads the greater of
  \<open>a\<close> and \<open>b\<close>, \<^verbatim>\<open>nm.max( b )\<close> the lesser, and \<^verbatim>\<open>nm.abs()\<close> the absolute value of \<open>a\<close>
  (a bound that is \<^verbatim>\<open>NaN\<close> is read back as \<^verbatim>\<open>NaN\<close>). In particular
  \<^verbatim>\<open>number`b`.min( 5 ).max( 10 )\<close> reads 14 as 10, \<^verbatim>\<open>number`c`.abs()\<close> reads -16 as 16 and
  \<^verbatim>\<open>number`b`.min( 5 )\<close> reads 0 as 5.
\<close>

theorem NumberMapper_clamping:
  "(mclass nm = NumberMapperClass \<and> call (read_fn nm) source w = (Inr v, w') \<longrightarrow>
      (falsy v \<longrightarrow>
         call (read_fn (NumberMapper_min coerce nm b)) source w = (Inr (Num b), w') \<and>
         call (read_fn (NumberMapper_max coerce nm b)) source w = (Inr (Num b), w') \<and>
         call (read_fn (NumberMapper_abs coerce nm)) source w = (Inr v, w')) \<and>
      (\<forall>a. v = Num a \<and> \<not> falsy v \<longrightarrow>
         call (read_fn (NumberMapper_min coerce nm b)) source w =
           (Inr (Num (if b = NaN then NaN else if num_le a b then b else a)), w') \<and>
         call (read_fn (NumberMapper_max coerce nm b)) source w =
           (Inr (Num (if b = NaN then NaN else if num_le a b then a else b)), w') \<and>
         call (read_fn (NumberMapper_abs coerce nm)) source w = (Inr (Num (num_abs a)), w'))) \<and>
   call (read_fn (NumberMapper_max coerce (NumberMapper_min coerce (number coerce [''b'']) (Fin 5)) (Fin 10)))
     (Obj [(''b'', Num (Fin 14))]) w1 = (Inr (Num (Fin 10)), w1) \<and>
   call (read_fn (NumberMapper_abs coerce (number coerce [''c''])))
     (Obj [(''c'', Num (Fin (- 16)))]) w1 = (Inr (Num (Fin 16)), w1) \<and>
   call (read_fn (NumberMapper_min coerce (number coerce [''b'']) (Fin 5)))
     (Obj [(''b'', Num (Fin 0))]) w1 = (Inr (Num (Fin 5)), w1)"
proof -
  have general:
    "call (read_fn (NumberMapper_min coerce nm b)) source w =
       (if falsy v then (Inr (Num b), w')
        else case v of Num a \<Rightarrow> (Inr (Num (if b = NaN then NaN else if num_le a b then b else a)), w')
             | _ \<Rightarrow> (Math_max coerce v (Num b), w'))"
    "call (read_fn (NumberMapper_max coerce nm b)) source w =
       (if falsy v then (Inr (Num b), w')
        else case v of Num a \<Rightarrow> (Inr (Num (if b = NaN then NaN else if num_le a b then a else b)), w')
             | _ \<Rightarrow> (Math_min coerce v (Num b), w'))"
    "call (read_fn (NumberMapper_abs coerce nm)) source w =
       (if falsy v then (Inr v, w')
        else case v of Num a \<Rightarrow> (Inr (Num (num_abs a)), w') | _ \<Rightarrow> (Math_abs coerce v, w'))"
    if "mclass nm = NumberMapperClass" and "call (read_fn nm) source w = (Inr v, w')"
    using that
    by (auto simp: NumberMapper_min_read NumberMapper_max_read NumberMapper_abs_read
          Math_max_def Math_min_def Math_abs_def num_max_greater num_min_lesser
          split: jsval.splits)
  let ?min5 = "NumberMapper_min coerce (number coerce [''b'']) (Fin 5)"
  have min14: "call (read_fn ?min5) (Obj [(''b'', Num (Fin 14))]) w1 = (Inr (Num (Fin 14)), w1)"
    by (simp add: NumberMapper_min_read [OF number_class number_read_Num] Math_max_def)
  have min5_class: "mclass ?min5 = NumberMapperClass"
    by (simp add: NumberMapper_min_def transform_NumberMapper number_class
          NumberMapper_transform_def)
  have ex1: "call (read_fn (NumberMapper_max coerce ?min5 (Fin 10)))
               (Obj [(''b'', Num (Fin 14))]) w1 = (Inr (Num (Fin 10)), w1)"
    by (simp add: NumberMapper_max_read [OF min5_class min14] Math_min_def)
  have ex2: "call (read_fn (NumberMapper_abs coerce (number coerce [''c''])))
               (Obj [(''c'', Num (Fin (- 16)))]) w1 = (Inr (Num (Fin 16)), w1)"
    by (simp add: NumberMapper_abs_read [OF number_class number_read_Num] Math_abs_def)
  have ex3: "call (read_fn (NumberMapper_min coerce (number coerce [''b'']) (Fin 5)))
               (Obj [(''b'', Num (Fin 0))]) w1 = (Inr (Num (Fin 5)), w1)"
    by (simp add: NumberMapper_min_read [OF number_class number_read_Num])
  have falsy_part:
    "call (read_fn (NumberMapper_min coerce nm b)) source w = (Inr (Num b), w') \<and>
     call (read_fn (NumberMapper_max coerce nm b)) source w = (Inr (Num b), w') \<and>
     call (read_fn (NumberMapper_abs coerce nm)) source w = (Inr v, w')"
    if "mclass nm = NumberMapperClass" and "call (read_fn nm) source w = (Inr v, w')"
      and "falsy v"
    using general [OF that(1,2)] that(3) by simp
  have number_part:
    "call (read_fn (NumberMapper_min coerce nm b)) source w =
       (Inr (Num (if b = NaN then NaN else if num_le a b then b else a)), w') \<and>
     call (read_fn (NumberMapper_max coerce nm b)) source w =
       (Inr (Num (if b = NaN then NaN else if num_le a b then a else b)), w') \<and>
     call (read_fn (NumberMapper_abs coerce nm)) source w = (Inr (Num (num_abs a)), w')"
    if "mclass nm = NumberMapperClass" and "call (read_fn nm) source w = (Inr v, w')"
      and "v = Num a" and "\<not> falsy v" for a
    using general [OF that(1,2)] that(3,4) by simp
  show ?thesis
    using falsy_part number_part ex1 ex2 ex3 by blast
qed

theorem NumberMapper_clamping_witness:
  "mclass (number nan_coercion [''b''] :: unit Mapper) = NumberMapperClass \<and>
   call (read_fn (number nan_coercion [''b''])) (Obj [(''b'', Num (Fin 3))]) w0 =
     (Inr (Num (Fin 3)), w0) \<and>
   \<not> falsy (Num (Fin 3)) \<and>
   call (read_fn (NumberMapper_min nan_coercion (number nan_coercion [''b'']) (Fin 5)))
     (Obj [(''b'', Num (Fin 3))]) w0 = (Inr (Num (Fin 5)), w0) \<and>
   call (read_fn (NumberMapper_max nan_coercion (number nan_coercion [''b'']) (Fin 5)))
     (Obj [(''b'', Num (Fin 3))]) w0 = (Inr (Num (Fin 3)), w0) \<and>
   call (read_fn (NumberMapper_abs nan_coercion (number nan_coercion [''b''])))
     (Obj [(''b'', Num (Fin 3))]) w0 = (Inr (Num (Fin 3)), w0) \<and>
   call (read_fn (number nan_coercion [''b''])) (Obj [(''b'', Num NaN)]) w0 =
     (Inr (Num NaN), w0) \<and>
   falsy (Num NaN) \<and>
   call (read_fn (NumberMapper_max nan_coercion (number nan_coercion [''b'']) (Fin 5)))
     (Obj [(''b'', Num NaN)]) w0 = (Inr (Num (Fin 5)), w0)"
proof -
  let ?nm = "number nan_coercion [''b''] :: unit Mapper"
  have c: "mclass ?nm = NumberMapperClass"
    by (rule number_class)
  have r3: "call (read_fn ?nm) (Obj [(''b'', Num (Fin 3))]) w0 = (Inr (Num (Fin 3)), w0)"
    and rn: "call (read_fn ?nm) (Obj [(''b'', Num NaN)]) w0 = (Inr (Num NaN), w0)"
    by (rule number_read_Num)+
  show ?thesis
    using NumberMapper_clamping [of ?nm "Obj [(''b'', Num (Fin 3))]" w0 "Num (Fin 3)" w0
        nan_coercion "Fin 5" w0]
      NumberMapper_clamping [of ?nm "Obj [(''b'', Num NaN)]" w0 "Num NaN" w0
        nan_coercion "Fin 5" w0]
      c r3 rn
    by simp
qed

section \<open>Steps that return\<close>

lemma forEach_append_Inr:
  assumes "forEach g (xs @ ys) out w = (Inr r, w')"
  shows "\<exists>mid wm. forEach g xs out w = (Inr mid, wm) \<and> forEach g ys mid wm = (Inr r, w')"
  using assms
  by (simp add: forEach_append js_bind_def split: prod.splits sum.splits)

lemma js_bind_Inr_iff:
  "js_bind m k w = (Inr r, w') \<longleftrightarrow> (\<exists>x wm. m w = (Inr x, wm) \<and> k x wm = (Inr r, w'))"
  by (auto simp: js_bind_def split: prod.splits sum.splits)

lemma read_step_Inr:
  "read_step f d source out w = (Inr out', w') \<longleftrightarrow>
     (\<exists>val wm. call (read_fn f) source w = (Inr val, wm) \<and>
        (if d \<and> val = Undefined then out' = out \<and> w' = wm
         else set_member out (modelName f) val wm = (Inr out', w')))"
  by (auto simp: read_step_def js_bind_def js_return_def split: prod.splits sum.splits)

lemma write_step_Inr:
  "write_step d model f out w = (Inr out', w') \<longleftrightarrow>
     (\<exists>val wm. call (write_fn f) model w = (Inr val, wm) \<and>
        (if d \<and> val = Undefined then out' = out \<and> w' = wm
         else \<exists>again. call (write_fn f) model wm = (Inr again, w') \<and>
                out' = AList.update (name f) again out))"
  by (auto simp: write_step_def js_bind_def js_return_def split: prod.splits sum.splits)


lemma forEach_Cons_Inr:
  "forEach g (x # xs) out w = (Inr r, w') \<longleftrightarrow>
     (\<exists>mid wm. g x out w = (Inr mid, wm) \<and> forEach g xs mid wm = (Inr r, w'))"
  by (simp add: js_bind_Inr_iff)

lemma Format_read_success:
  assumes "configured fmt" and "Format_read fmt source w = (Inr (Inst out), w')"
  shows "\<exists>outa wa. new (cl fmt) w = (Inr outa, wa) \<and>
           forEach (\<lambda>m. read_step m (dropUndefined fmt) source) (mappers fmt) outa wa = (Inr out, w')"
  using assms
  by (auto simp: Format_read_def js_try_def js_bind_def js_return_def console_log_def
        configured_private_read split: if_splits prod.splits sum.splits)

lemma Format_write_success:
  assumes "Format_write fmt model w = (Inr (Obj res), w')"
  shows "forEach (write_step (dropUndefined fmt) model)
           (filter has_write (mappers fmt)) [] w = (Inr res, w')"
  using assms
  by (auto simp: Format_write_def js_try_def js_bind_def js_return_def console_log_def
        split: if_splits prod.splits sum.splits)

section \<open>Writing each result once\<close>









section \<open>Exceptions stop at the format\<close>

lemma forEach_throws:
  assumes "forEach g before out w = (Inr out1, w1)" and "g f out1 w1 = (Inl e, w2)"
  shows "forEach g (before @ f # rest) out w = (Inl e, w2)"
  using assms by (simp add: forEach_append js_bind_def)

lemma read_step_throws:
  assumes "call (read_fn f) source w = (Inl e, w')"
  shows "read_step f d source out w = (Inl e, w')"
  using assms by (simp add: read_step_def js_bind_def)

lemma write_step_throws:
  assumes "call (write_fn f) model w = (Inl e, w') \<or>
           (\<exists>value w1. call (write_fn f) model w = (Inr value, w1) \<and>
              \<not> (d \<and> value = Undefined) \<and> call (write_fn f) model w1 = (Inl e, w'))"
  shows "write_step d model f out w = (Inl e, w')"
  using assms by (auto simp: write_step_def js_bind_def)

lemma Format_read_caught:
  assumes "configured fmt" and "\<not> falsy source" and "new (cl fmt) w = (Inr out0, w1)"
    and "forEach (\<lambda>m. read_step m (dropUndefined fmt) source) (mappers fmt) out0 w1 = (Inl e, w2)"
  shows "Format_read fmt source w =
           (Inr (Plain Undefined),
            w2\<lparr>console := console w2 @ [ConsoleLog ''A format read completely exploded.'' e]\<rparr>)"
  using assms
  by (simp add: Format_read_def js_try_def js_bind_def configured_private_read console_log_def
        js_return_def)

lemma Format_write_caught:
  assumes "\<not> falsy_model model"
    and "forEach (write_step (dropUndefined fmt) model)
           (filter has_write (mappers fmt)) [] w = (Inl e, w2)"
  shows "Format_write fmt model w =
           (Inr Undefined,
            w2\<lparr>console := console w2 @ [ConsoleLog ''A format write completely exploded.'' e]\<rparr>)"
  using assms
  by (simp add: Format_write_def js_try_def js_bind_def console_log_def js_return_def)

text \<open>
  C1. Take a call \<^verbatim>\<open>fmt.read( source )\<close> that reaches the mappers (a configured format
  whose \<^verbatim>\<open>read\<close> is \<^verbatim>\<open>Format.prototype.read\<close>, a source that is not falsy, a constructor
  that returned) in which the mappers \<open>before\<close> ran and the read function of the next
  mapper \<open>f\<close> throws \<open>e\<close>, leaving the world \<open>wc\<close>. Then the call returns \<^verbatim>\<open>undefined\<close>
  (it does not throw), and the world it leaves is \<open>wc\<close> with the exception logged:
  the mappers \<open>rest\<close> are never applied and the instance built so far is dropped.
  Symmetrically for \<^verbatim>\<open>fmt.write( model )\<close>, when a call of the write function of \<open>f'\<close>
  (the call for the check or the call for the assignment) throws.
\<close>

theorem exceptions_contained:
  assumes "configured fmt"
  shows
    "(\<not> read_replaced fmt \<and> \<not> falsy source \<and> new (cl fmt) w = (Inr outa, wa) \<and>
      mappers fmt = before @ f # rest \<and>
      forEach (\<lambda>m. read_step m (dropUndefined fmt) source) before outa wa = (Inr outb, wb) \<and>
      call (read_fn f) source wb = (Inl e, wc) \<longrightarrow>
        invoke_read fmt source w =
          (Inr (Plain Undefined),
           wc\<lparr>console := console wc @ [ConsoleLog ''A format read completely exploded.'' e]\<rparr>)) \<and>
     (\<not> write_replaced fmt \<and> \<not> falsy_model model \<and>
      filter has_write (mappers fmt) = before' @ f' # rest' \<and>
      forEach (write_step (dropUndefined fmt) model) before' [] u = (Inr outb', ua) \<and>
      (call (write_fn f') model ua = (Inl e', uc) \<or>
       (\<exists>value ub. call (write_fn f') model ua = (Inr value, ub) \<and>
          \<not> (dropUndefined fmt \<and> value = Undefined) \<and>
          call (write_fn f') model ub = (Inl e', uc))) \<longrightarrow>
        invoke_write fmt model u =
          (Inr Undefined,
           uc\<lparr>console := console uc @ [ConsoleLog ''A format write completely exploded.'' e']\<rparr>))"
proof (intro conjI impI)
  assume h: "\<not> read_replaced fmt \<and> \<not> falsy source \<and> new (cl fmt) w = (Inr outa, wa) \<and>
      mappers fmt = before @ f # rest \<and>
      forEach (\<lambda>m. read_step m (dropUndefined fmt) source) before outa wa = (Inr outb, wb) \<and>
      call (read_fn f) source wb = (Inl e, wc)"
  then have "read_step f (dropUndefined fmt) source outb wb = (Inl e, wc)"
    by (simp add: read_step_throws)
  with h have "forEach (\<lambda>m. read_step m (dropUndefined fmt) source) (mappers fmt) outa wa =
                 (Inl e, wc)"
    by (simp add: forEach_throws)
  with h assms show "invoke_read fmt source w =
          (Inr (Plain Undefined),
           wc\<lparr>console := console wc @ [ConsoleLog ''A format read completely exploded.'' e]\<rparr>)"
    by (simp add: invoke_read_kept Format_read_caught)
next
  assume h: "\<not> write_replaced fmt \<and> \<not> falsy_model model \<and>
      filter has_write (mappers fmt) = before' @ f' # rest' \<and>
      forEach (write_step (dropUndefined fmt) model) before' [] u = (Inr outb', ua) \<and>
      (call (write_fn f') model ua = (Inl e', uc) \<or>
       (\<exists>value ub. call (write_fn f') model ua = (Inr value, ub) \<and>
          \<not> (dropUndefined fmt \<and> value = Undefined) \<and>
          call (write_fn f') model ub = (Inl e', uc)))"
  then have "write_step (dropUndefined fmt) model f' outb' ua = (Inl e', uc)"
    by (intro write_step_throws) blast
  with h have "forEach (write_step (dropUndefined fmt) model)
                 (filter has_write (mappers fmt)) [] u = (Inl e', uc)"
    by (simp add: forEach_throws)
  with h show "invoke_write fmt model u =
          (Inr Undefined,
           uc\<lparr>console := console uc @ [ConsoleLog ''A format write completely exploded.'' e']\<rparr>)"
    by (simp add: invoke_write_kept Format_write_caught)
qed

lemma exploding_format_constructed:
  "Format (Some Probe) [counting_mapper, exploding_mapper, counting_mapper] = Inr exploding_format"
  by (simp add: Format_def reduce_def exploding_format_def)

lemma exploding_format_configured: "configured exploding_format"
  by (rule by_constructor [OF exploding_format_constructed])

theorem exceptions_contained_witness:
  "configured exploding_format \<and>
   \<not> read_replaced exploding_format \<and> \<not> write_replaced exploding_format \<and>
   \<not> falsy (Obj []) \<and> \<not> falsy_model (Plain (Obj []) :: nat mval) \<and>
   new (cl exploding_format) \<lparr>console = [], store = 0\<rparr> =
     (Inr (Probe, fresh), \<lparr>console = [], store = 0\<rparr>) \<and>
   mappers exploding_format = [counting_mapper] @ exploding_mapper # [counting_mapper] \<and>
   call (read_fn exploding_mapper) (Obj []) \<lparr>console = [], store = 1\<rparr> =
     (Inl (Thrown (Str ''boom'')), \<lparr>console = [], store = 1\<rparr>) \<and>
   invoke_read exploding_format (Obj []) \<lparr>console = [], store = 0\<rparr> =
     (Inr (Plain Undefined),
      \<lparr>console = [ConsoleLog ''A format read completely exploded.'' (Thrown (Str ''boom''))],
       store = 1\<rparr>) \<and>
   invoke_write exploding_format (Plain (Obj [])) \<lparr>console = [], store = 0\<rparr> =
     (Inr Undefined,
      \<lparr>console = [ConsoleLog ''A format write completely exploded.'' (Thrown (Str ''boom''))],
       store = 2\<rparr>)"
proof -
  let ?w0 = "\<lparr>console = [], store = 0::nat\<rparr>"
  let ?w1 = "\<lparr>console = [], store = 1::nat\<rparr>"
  let ?w2 = "\<lparr>console = [], store = 2::nat\<rparr>"
  have kept: "\<not> read_replaced exploding_format" "\<not> write_replaced exploding_format"
    by (simp_all add: read_replaced_def write_replaced_def exploding_format_def)
  have ctor: "new (cl exploding_format) ?w0 = (Inr (Probe, fresh), ?w0)"
    by (simp add: exploding_format_def new_def Probe_def fresh_def js_bind_def js_return_def)
  have ms: "mappers exploding_format = [counting_mapper] @ exploding_mapper # [counting_mapper]"
    by (simp add: exploding_format_def)
  have d: "dropUndefined exploding_format"
    by (simp add: exploding_format_def)
  have before: "forEach (\<lambda>m. read_step m (dropUndefined exploding_format) (Obj []))
                  [counting_mapper] (Probe, fresh) ?w0 =
                (Inr (Probe, holding [(''n'', Num (Fin 1))]), ?w1)"
    by (simp add: d read_step_def counting_mapper_def set_member_def Probe_def
          ordinary_set_def no_accessors_def fresh_def holding_def js_bind_def js_return_def)
  have boom: "call (read_fn exploding_mapper) (Obj []) ?w1 = (Inl (Thrown (Str ''boom'')), ?w1)"
    by (simp add: exploding_mapper_def js_throw_def)
  have fs: "filter has_write (mappers exploding_format) =
              [counting_mapper] @ exploding_mapper # [counting_mapper]"
    by (simp add: exploding_format_def counting_mapper_def exploding_mapper_def)
  have before': "forEach (write_step (dropUndefined exploding_format) (Plain (Obj [])))
                   [counting_mapper] [] ?w0 = (Inr [(''n'', Num (Fin 1))], ?w2)"
    by (simp add: d write_step_def counting_mapper_def js_bind_def js_return_def numeral_2_eq_2)
  have boom': "call (write_fn exploding_mapper) (Plain (Obj [])) ?w2 =
                 (Inl (Thrown (Str ''boom'')), ?w2)"
    by (simp add: exploding_mapper_def js_throw_def)
  have r: "invoke_read exploding_format (Obj []) ?w0 =
     (Inr (Plain Undefined),
      ?w1\<lparr>console := console ?w1 @
         [ConsoleLog ''A format read completely exploded.'' (Thrown (Str ''boom''))]\<rparr>)"
    using exceptions_contained [OF exploding_format_configured,
        of "Obj []" ?w0 "(Probe, fresh)" ?w0 "[counting_mapper]" exploding_mapper
           "[counting_mapper]" "(Probe, holding [(''n'', Num (Fin 1))])" ?w1
           "Thrown (Str ''boom'')" ?w1]
      kept ctor ms before boom
    by simp
  have wr: "invoke_write exploding_format (Plain (Obj [])) ?w0 =
     (Inr Undefined,
      ?w2\<lparr>console := console ?w2 @
         [ConsoleLog ''A format write completely exploded.'' (Thrown (Str ''boom''))]\<rparr>)"
    using exceptions_contained [OF exploding_format_configured,
        where model = "Plain (Obj [])" and u = ?w0 and before' = "[counting_mapper]"
          and f' = exploding_mapper and rest' = "[counting_mapper]"
          and outb' = "[(''n'', Num (Fin 1))]" and ua = ?w2 and e' = "Thrown (Str ''boom'')"
          and uc = ?w2]
      kept fs before' boom'
    by simp
  show ?thesis
    using exploding_format_configured kept ctor ms boom r wr by simp
qed

section \<open>Mapper order\<close>

lemma last_assignment_Cons:
  "last_assignment ((k, v) # rest) x =
     (case last_assignment rest x of Some u \<Rightarrow> Some u | None \<Rightarrow> if k = x then Some v else None)"
  by (simp add: last_assignment_def map_add_def split: option.splits)

lemma get_member_stuck:
  assumes "sticks (fst out) x" and "set_member out x v w = (Inr out', w')"
  shows "get_member out' x = js_return v"
proof (rule ext)
  fix u
  from assms(2) have "fst out' = fst out"
    and "assign (fst out) x v (snd out) w = (Inr (snd out'), w')"
    by (simp_all add: set_member_Inr)
  with assms(1) have "lookup (fst out') (snd out') x u = (Inr v, u)"
    unfolding sticks_def by metis
  then show "get_member out' x u = js_return v u"
    by (simp add: get_member_def js_return_def)
qed

lemma get_member_kept:
  assumes "keeps (fst out) k x" and "set_member out k v w = (Inr out', w')"
  shows "get_member out' x = get_member out x"
proof -
  from assms(2) have "fst out' = fst out"
    and "assign (fst out) k v (snd out) w = (Inr (snd out'), w')"
    by (simp_all add: set_member_Inr)
  with assms(1) show ?thesis
    unfolding keeps_def get_member_def by metis
qed

lemma read_log:
  assumes "forEach (\<lambda>m. read_step m d source) ms out w = (Inr out', w')"
    and "sticks (fst out) x"
    and "\<forall>m \<in> set ms. modelName m \<noteq> x \<longrightarrow> keeps (fst out) (modelName m) x"
  shows "fst out' = fst out \<and>
         get_member out' x =
           (case last_assignment (read_assignments ms d source out w) x of
              Some v \<Rightarrow> js_return v
            | None \<Rightarrow> get_member out x)"
  using assms
proof (induction ms arbitrary: out w)
  case Nil
  then show ?case by (simp add: js_return_def last_assignment_def)
next
  case (Cons m ms)
  from Cons.prems(1) obtain mid wm where
    step: "read_step m d source out w = (Inr mid, wm)"
    and rest: "forEach (\<lambda>m. read_step m d source) ms mid wm = (Inr out', w')"
    unfolding forEach_Cons_Inr by blast
  from step obtain val wn where
    c: "call (read_fn m) source w = (Inr val, wn)"
    and alt: "if d \<and> val = Undefined then mid = out \<and> wm = wn
              else set_member out (modelName m) val wn = (Inr mid, wm)"
    unfolding read_step_Inr by blast
  show ?case
  proof (cases "d \<and> val = Undefined")
    case True
    with alt have same: "mid = out" "wm = wn" by simp_all
    have "read_assignments (m # ms) d source out w = read_assignments ms d source out wn"
      using c True by simp
    moreover have "fst out' = fst out \<and>
         get_member out' x =
           (case last_assignment (read_assignments ms d source out wn) x of
              Some v \<Rightarrow> js_return v | None \<Rightarrow> get_member out x)"
      using Cons.IH [of out wn] rest same Cons.prems(2,3) by simp
    ultimately show ?thesis by simp
  next
    case False
    with alt have set: "set_member out (modelName m) val wn = (Inr mid, wm)" by simp
    then have cls: "fst mid = fst out"
      by (simp add: set_member_Inr)
    have log: "read_assignments (m # ms) d source out w =
                 (modelName m, val) # read_assignments ms d source mid wm"
      using c set False by auto
    have ih: "fst out' = fst mid \<and>
         get_member out' x =
           (case last_assignment (read_assignments ms d source mid wm) x of
              Some v \<Rightarrow> js_return v | None \<Rightarrow> get_member mid x)"
      using Cons.IH [OF rest] Cons.prems(2,3) cls by simp
    have mid: "get_member mid x = (if modelName m = x then js_return val else get_member out x)"
    proof (cases "modelName m = x")
      case True
      then show ?thesis
        using get_member_stuck [OF Cons.prems(2)] set by simp
    next
      case False
      then have "keeps (fst out) (modelName m) x"
        using Cons.prems(3) by simp
      from get_member_kept [OF this set] False show ?thesis by simp
    qed
    show ?thesis
      unfolding log last_assignment_Cons
      using ih cls mid
      by (simp split: option.splits)
  qed
qed

lemma log_step:
  "map_of (AList.update k v out) ++ map_of (rev rest) = map_of out ++ map_of (rev ((k, v) # rest))"
  by (rule ext) (simp add: update_conv' map_add_def split: option.splits)

lemma write_log:
  assumes "forEach (write_step d model) ms out w = (Inr out', w')"
  shows "map_of out' = map_of out ++ map_of (rev (write_assignments ms d model w))"
  using assms
proof (induction ms arbitrary: out w)
  case Nil
  then show ?case by (simp add: js_return_def)
next
  case (Cons m ms)
  from Cons.prems obtain mid wm where
    step: "write_step d model m out w = (Inr mid, wm)"
    and rest: "forEach (write_step d model) ms mid wm = (Inr out', w')"
    unfolding forEach_Cons_Inr by blast
  from step obtain val wn where
    c: "call (write_fn m) model w = (Inr val, wn)"
    and alt: "if d \<and> val = Undefined then mid = out \<and> wm = wn
              else \<exists>again. call (write_fn m) model wn = (Inr again, wm) \<and>
                     mid = AList.update (name m) again out"
    unfolding write_step_Inr by blast
  have ih: "map_of out' = map_of mid ++ map_of (rev (write_assignments ms d model wm))"
    by (rule Cons.IH [OF rest])
  show ?case
  proof (cases "d \<and> val = Undefined")
    case True
    with alt have "mid = out" and "wm = wn" by simp_all
    moreover have "write_assignments (m # ms) d model w = write_assignments ms d model wn"
      using c True by simp
    ultimately show ?thesis using ih by simp
  next
    case False
    with alt obtain again where
      a: "call (write_fn m) model wn = (Inr again, wm)"
      and mid: "mid = AList.update (name m) again out"
      by auto
    have "write_assignments (m # ms) d model w =
            (name m, again) # write_assignments ms d model wm"
      using c a False by auto
    with ih mid show ?thesis
      by (simp only: log_step)
  qed
qed

lemma Foo_data_field:
  assumes "x \<noteq> ''__proto__''"
  shows "sticks Foo x" and "k \<noteq> ''__proto__'' \<Longrightarrow> k \<noteq> x \<Longrightarrow> keeps Foo k x"
  using assms
  by (simp_all add: Foo_def js_class_sticks js_class_keeps no_accessors_def)

lemma Bar_data_field:
  assumes "x \<noteq> ''__proto__''"
  shows "sticks Bar x" and "k \<noteq> ''__proto__'' \<Longrightarrow> k \<noteq> x \<Longrightarrow> keeps Bar k x"
  using assms
  by (simp_all add: Bar_def js_class_sticks js_class_keeps no_accessors_def)

lemmas run_defs =
  Format_read_def Format_write_def invoke_read_def invoke_write_def seq_step_def read_step_def
  write_step_def new_def set_member_def get_member_def ordinary_set_def ordinary_get_def
  no_accessors_def fresh_def holding_def json_Cons JsonValue_to_def Mapper_readonly_def
  Mapper_writeonly_def js_try_def js_bind_def js_return_def js_lift_def

lemma split_format_constructed:
  "Format (Some Foo) [Mapper_readonly (json [''x'']), Mapper_writeonly (json [''x''])] =
     Inr split_format"
  by (simp add: Format_def reduce_def split_format_def)

lemma order_format_constructed:
  "Format (Some Foo) [json [''x''], json [''k''], JsonValue_to (json [''y'']) ''x''] =
     Inr order_format"
  by (simp add: Format_def reduce_def order_format_def)

lemma order_format_configured: "configured order_format"
  by (rule by_constructor [OF order_format_constructed])

text \<open>
  C3, as amended. Let \<open>x\<close> be a plain data field of the entity class: an assignment to \<open>x\<close>
  sticks, and the assignments the mappers make to other fields do not redefine \<open>x\<close> (no
  accessor is involved and \<open>x\<close> is not \<^verbatim>\<open>__proto__\<close>). When \<^verbatim>\<open>fmt.read( source )\<close> returns an
  instance (a configured format whose \<^verbatim>\<open>read\<close> was not replaced), \<open>x\<close> reads on it as the
  value of the last assignment that the mappers made to \<open>x\<close> in list order, or as on the
  fresh instance when there is none; a mapper's result is assigned unless it is
  \<^verbatim>\<open>undefined\<close> while \<^verbatim>\<open>dropUndefined\<close> is set. So of two mappers with the same target name
  the later one determines the field whenever its result is assigned, and the earlier
  mapper's value stays when the later result is a dropped \<^verbatim>\<open>undefined\<close>. The same holds
  for \<^verbatim>\<open>fmt.write( model )\<close> and the source names, for every key of the written object.
\<close>

theorem last_assignment_wins:
  assumes "configured fmt"
  shows
    "(\<not> read_replaced fmt \<and> new (cl fmt) w = (Inr outa, wa) \<and>
      invoke_read fmt source w = (Inr (Inst out), w') \<and>
      sticks (fst outa) x \<and>
      (\<forall>m \<in> set (mappers fmt). modelName m \<noteq> x \<longrightarrow> keeps (fst outa) (modelName m) x) \<longrightarrow>
        get_member out x =
          (case last_assignment
                  (read_assignments (mappers fmt) (dropUndefined fmt) source outa wa) x of
             Some v \<Rightarrow> js_return v
           | None \<Rightarrow> get_member outa x)) \<and>
     (\<not> write_replaced fmt \<and> invoke_write fmt model u = (Inr (Obj res), u') \<longrightarrow>
        map_of res x =
          last_assignment
            (write_assignments (filter has_write (mappers fmt)) (dropUndefined fmt) model u) x)"
proof (intro conjI impI)
  assume h: "\<not> read_replaced fmt \<and> new (cl fmt) w = (Inr outa, wa) \<and>
      invoke_read fmt source w = (Inr (Inst out), w') \<and>
      sticks (fst outa) x \<and>
      (\<forall>m \<in> set (mappers fmt). modelName m \<noteq> x \<longrightarrow> keeps (fst outa) (modelName m) x)"
  then have "Format_read fmt source w = (Inr (Inst out), w')"
    by (metis invoke_read_kept)
  from Format_read_success [OF assms this] h
  have "forEach (\<lambda>m. read_step m (dropUndefined fmt) source) (mappers fmt) outa wa = (Inr out, w')"
    by auto
  from read_log [OF this, of x] h
  show "get_member out x =
          (case last_assignment
                  (read_assignments (mappers fmt) (dropUndefined fmt) source outa wa) x of
             Some v \<Rightarrow> js_return v
           | None \<Rightarrow> get_member outa x)"
    by simp
next
  assume h: "\<not> write_replaced fmt \<and> invoke_write fmt model u = (Inr (Obj res), u')"
  then have "Format_write fmt model u = (Inr (Obj res), u')"
    by (metis invoke_write_kept)
  from write_log [OF Format_write_success [OF this]]
  show "map_of res x =
          last_assignment
            (write_assignments (filter has_write (mappers fmt)) (dropUndefined fmt) model u) x"
    by (simp add: last_assignment_def map_add_def)
qed

theorem last_assignment_wins_witness:
  "configured order_format \<and> \<not> read_replaced order_format \<and>
   mappers order_format = [json [''x''], json [''k''], JsonValue_to (json [''y'']) ''x''] \<and>
   new (cl order_format) w0 = (Inr (Foo, fresh), w0) \<and>
   sticks Foo ''x'' \<and> keeps Foo ''k'' ''x'' \<and>
   invoke_read order_format (Obj [(''x'', Num (Fin 1)), (''k'', Num (Fin 5)), (''y'', Num (Fin 2))]) w0 =
     (Inr (Inst (Foo, holding [(''x'', Num (Fin 2)), (''k'', Num (Fin 5))])), w0) \<and>
   read_assignments (mappers order_format) (dropUndefined order_format)
     (Obj [(''x'', Num (Fin 1)), (''k'', Num (Fin 5)), (''y'', Num (Fin 2))]) (Foo, fresh) w0 =
     [(''x'', Num (Fin 1)), (''k'', Num (Fin 5)), (''x'', Num (Fin 2))] \<and>
   get_member (Foo, holding [(''x'', Num (Fin 2)), (''k'', Num (Fin 5))]) ''x'' =
     js_return (Num (Fin 2))"
proof -
  let ?src = "Obj [(''x'', Num (Fin 1)), (''k'', Num (Fin 5)), (''y'', Num (Fin 2))]"
  let ?out = "(Foo, holding [(''x'', Num (Fin 2)), (''k'', Num (Fin 5))])"
  have kept: "\<not> read_replaced order_format"
    by (simp add: read_replaced_def order_format_def)
  have ms: "mappers order_format = [json [''x''], json [''k''], JsonValue_to (json [''y'']) ''x'']"
    by (simp add: order_format_def)
  have ctor: "new (cl order_format) w0 = (Inr (Foo, fresh), w0)"
    by (simp add: order_format_def new_def Foo_def fresh_def js_bind_def js_return_def)
  have st: "sticks Foo ''x''" and kp: "keeps Foo ''k'' ''x''"
    by (simp_all add: Foo_data_field)
  have others: "\<forall>m \<in> set (mappers order_format). modelName m \<noteq> ''x'' \<longrightarrow>
                  keeps (fst (Foo, fresh)) (modelName m) ''x''"
    using kp by (simp add: ms json_Cons JsonValue_to_def)
  have run: "invoke_read order_format ?src w0 = (Inr (Inst ?out), w0)"
    by (simp add: order_format_def Foo_def run_defs)
  have assigned: "read_assignments (mappers order_format) (dropUndefined order_format) ?src
                    (Foo, fresh) w0 =
                  [(''x'', Num (Fin 1)), (''k'', Num (Fin 5)), (''x'', Num (Fin 2))]"
    by (simp add: order_format_def Foo_def run_defs)
  have "get_member ?out ''x'' =
          (case last_assignment [(''x'', Num (Fin 1)), (''k'', Num (Fin 5)), (''x'', Num (Fin 2))] ''x'' of
             Some v \<Rightarrow> js_return v | None \<Rightarrow> get_member (Foo, fresh) ''x'')"
    using last_assignment_wins [OF order_format_configured, of w0 "(Foo, fresh)" w0 ?src
        ?out w0 "''x''"]
      kept ctor run assigned st others
    by simp
  then have "get_member ?out ''x'' = js_return (Num (Fin 2))"
    by (simp add: last_assignment_def)
  then show ?thesis
    using order_format_configured kept ms ctor st kp run assigned by simp
qed

text \<open>
  C3 as stated fails when the later mapper's result is a dropped \<^verbatim>\<open>undefined\<close>: a
  read-only mapper followed by a write-only mapper for the same field. On read the later
  mapper yields \<^verbatim>\<open>undefined\<close> and the field keeps the value of the earlier mapper.
\<close>

theorem later_mapper_dropped_counterexample:
  "Format (Some Foo) [Mapper_readonly (json [''x'']), Mapper_writeonly (json [''x''])] =
     Inr split_format \<and>
   modelName (Mapper_readonly (json [''x'']) :: unit Mapper) = ''x'' \<and>
   modelName (Mapper_writeonly (json [''x'']) :: unit Mapper) = ''x'' \<and>
   call (read_fn (Mapper_readonly (json [''x'']))) (Obj [(''x'', Num (Fin 1))]) w0 =
     (Inr (Num (Fin 1)), w0) \<and>
   call (read_fn (Mapper_writeonly (json [''x'']))) (Obj [(''x'', Num (Fin 1))]) w0 =
     (Inr Undefined, w0) \<and>
   invoke_read split_format (Obj [(''x'', Num (Fin 1))]) w0 =
     (Inr (Inst (Foo, holding [(''x'', Num (Fin 1))])), w0) \<and>
   get_member (Foo, holding [(''x'', Num (Fin 1))]) ''x'' w0 = (Inr (Num (Fin 1)), w0)"
  by (simp add: split_format_constructed)
     (simp add: split_format_def Foo_def run_defs)

section \<open>Extension\<close>

lemma new_class:
  assumes "new (Some C) w = (Inr out, w')"
  shows "fst out = C"
  using assms
  by (auto simp: new_def js_bind_def js_return_def split: prod.splits sum.splits)

lemma base_format_constructed:
  "Format (Some Foo) [json [''k''], JsonValue_to (json [''y'']) ''x''] = Inr base_format"
  by (simp add: Format_def reduce_def base_format_def)

lemma base_format_configured: "configured base_format"
  by (rule by_constructor [OF base_format_constructed])

lemma extended_format_derived:
  "Format_extend base_format (Some Bar) [json [''x'']] = Inr extended_format"
  by (simp add: Format_extend_def Format_def reduce_def base_format_def extended_format_def)

text \<open>
  C4, as amended. For a configured format \<open>f\<close>, a class \<open>C\<close> and mappers \<open>ms\<close>,
  \<^verbatim>\<open>f.extend( C, ...ms )\<close> returns a format whose entity class is \<open>C\<close> and whose mapper list
  is \<open>ms\<close> followed by the mappers of \<open>f\<close>. The base mappers therefore run after the
  extension mappers. On read, for a plain data field \<open>x\<close> of \<open>C\<close> (an assignment to \<open>x\<close>
  sticks and the assignments the mappers make to other fields do not redefine it: no
  accessor is involved, \<open>x\<close> is not \<^verbatim>\<open>__proto__\<close>), the instance reads under \<open>x\<close> as the
  value of the last assignment of the base mappers to \<open>x\<close>; when the base mappers assign
  nothing to \<open>x\<close> (a result that is \<^verbatim>\<open>undefined\<close> is not assigned), as the value of the last
  assignment of the extension mappers; and as on the fresh instance when neither assigns.
  Likewise on write with the source names, for every key of the written object.
\<close>

theorem extend_prepends:
  assumes "configured f"
  shows "\<exists>g. Format_extend f (Some C) ms = Inr g \<and> cl g = Some C \<and> mappers g = ms @ mappers f \<and>
           (\<forall>source w outa wa outb wb out w' x.
              new (Some C) w = (Inr outa, wa) \<and>
              forEach (\<lambda>m. read_step m (dropUndefined g) source) ms outa wa = (Inr outb, wb) \<and>
              invoke_read g source w = (Inr (Inst out), w') \<and>
              sticks C x \<and>
              (\<forall>m \<in> set (ms @ mappers f). modelName m \<noteq> x \<longrightarrow> keeps C (modelName m) x)
              \<longrightarrow> get_member out x =
                    (case last_assignment
                            (read_assignments (mappers f) (dropUndefined g) source outb wb) x of
                       Some v \<Rightarrow> js_return v
                     | None \<Rightarrow>
                        (case last_assignment
                                (read_assignments ms (dropUndefined g) source outa wa) x of
                           Some v \<Rightarrow> js_return v
                         | None \<Rightarrow> get_member outa x))) \<and>
           (\<forall>model u outb ub res u' x.
              forEach (write_step (dropUndefined g) model)
                (filter has_write ms) [] u = (Inr outb, ub) \<and>
              invoke_write g model u = (Inr (Obj res), u')
              \<longrightarrow> map_of res x =
                    (case last_assignment
                            (write_assignments (filter has_write (mappers f))
                               (dropUndefined g) model ub) x of
                       Some v \<Rightarrow> Some v
                     | None \<Rightarrow>
                        last_assignment
                          (write_assignments (filter has_write ms) (dropUndefined g) model u) x))"
proof -
  have "ms @ mappers f \<noteq> []"
    using configured_nonempty [OF assms] by simp
  then obtain g where g: "Format (Some C) (ms @ mappers f) = Inr g"
    using Format_nonempty by blast
  have ext: "Format_extend f (Some C) ms = Inr g"
    by (simp add: Format_extend_def g)
  have conf: "configured g"
    by (rule by_extend [OF assms ext])
  have c: "cl g = Some C" and m: "mappers g = ms @ mappers f" and o: "override g = NoOverride"
    using Format_Inr [OF g] by simp_all
  have rd: "invoke_read g = Format_read g" and wr: "invoke_write g = Format_write g"
    using o by (simp_all add: invoke_read_kept invoke_write_kept read_replaced_def
        write_replaced_def)
  have read_part:
    "get_member out x =
       (case last_assignment (read_assignments (mappers f) (dropUndefined g) source outb wb) x of
          Some v \<Rightarrow> js_return v
        | None \<Rightarrow>
           (case last_assignment (read_assignments ms (dropUndefined g) source outa wa) x of
              Some v \<Rightarrow> js_return v
            | None \<Rightarrow> get_member outa x))"
    if "new (Some C) w = (Inr outa, wa)"
      and "forEach (\<lambda>m. read_step m (dropUndefined g) source) ms outa wa = (Inr outb, wb)"
      and "invoke_read g source w = (Inr (Inst out), w')"
      and "sticks C x"
      and "\<forall>m \<in> set (ms @ mappers f). modelName m \<noteq> x \<longrightarrow> keeps C (modelName m) x"
    for source w outa wa outb wb out w' x
  proof -
    have ca: "fst outa = C"
      by (rule new_class [OF that(1)])
    from that(3) have "Format_read g source w = (Inr (Inst out), w')"
      by (simp add: rd)
    from Format_read_success [OF conf this] that(1)
    have "forEach (\<lambda>m. read_step m (dropUndefined g) source) (ms @ mappers f) outa wa =
            (Inr out, w')"
      by (auto simp: c m)
    from forEach_append_Inr [OF this] that(2)
    have base: "forEach (\<lambda>m. read_step m (dropUndefined g) source) (mappers f) outb wb =
                  (Inr out, w')"
      by auto
    have first: "fst outb = fst outa \<and>
        get_member outb x =
          (case last_assignment (read_assignments ms (dropUndefined g) source outa wa) x of
             Some v \<Rightarrow> js_return v | None \<Rightarrow> get_member outa x)"
      using read_log [OF that(2), of x] that(4,5) ca by simp
    then have cb: "fst outb = C"
      using ca by simp
    have "get_member out x =
          (case last_assignment (read_assignments (mappers f) (dropUndefined g) source outb wb) x of
             Some v \<Rightarrow> js_return v | None \<Rightarrow> get_member outb x)"
      using read_log [OF base, of x] that(4,5) cb by simp
    with first show ?thesis
      by (simp split: option.splits)
  qed
  have write_part:
    "map_of res x =
       (case last_assignment
               (write_assignments (filter has_write (mappers f)) (dropUndefined g) model ub) x of
          Some v \<Rightarrow> Some v
        | None \<Rightarrow>
           last_assignment
             (write_assignments (filter has_write ms) (dropUndefined g) model u) x)"
    if "forEach (write_step (dropUndefined g) model)
          (filter has_write ms) [] u = (Inr outb, ub)"
      and "invoke_write g model u = (Inr (Obj res), u')"
    for model u outb ub res u' x
  proof -
    from that(2) have "Format_write g model u = (Inr (Obj res), u')"
      by (simp add: wr)
    from Format_write_success [OF this]
    have "forEach (write_step (dropUndefined g) model)
            (filter has_write ms @ filter has_write (mappers f))
            [] u = (Inr res, u')"
      by (simp add: m)
    from forEach_append_Inr [OF this] that(1)
    have "forEach (write_step (dropUndefined g) model)
            (filter has_write (mappers f)) outb ub = (Inr res, u')"
      by auto
    from write_log [OF this] write_log [OF that(1)] show ?thesis
      by (simp add: last_assignment_def map_add_def split: option.splits)
  qed
  show ?thesis
    using ext c m read_part write_part by blast
qed

theorem extend_prepends_witness:
  "configured base_format \<and>
   mappers base_format = [json [''k''], JsonValue_to (json [''y'']) ''x''] \<and>
   Format_extend base_format (Some Bar) [json [''x'']] = Inr extended_format \<and>
   cl extended_format = Some Bar \<and>
   mappers extended_format = [json [''x''], json [''k''], JsonValue_to (json [''y'']) ''x''] \<and>
   sticks Bar ''x'' \<and> keeps Bar ''k'' ''x'' \<and>
   invoke_read extended_format
     (Obj [(''x'', Num (Fin 1)), (''k'', Num (Fin 5)), (''y'', Num (Fin 2))]) w0 =
     (Inr (Inst (Bar, holding [(''kind'', Str ''Bar''), (''x'', Num (Fin 2)), (''k'', Num (Fin 5))])),
      w0) \<and>
   read_assignments (mappers base_format) (dropUndefined extended_format)
     (Obj [(''x'', Num (Fin 1)), (''k'', Num (Fin 5)), (''y'', Num (Fin 2))])
     (Bar, holding [(''kind'', Str ''Bar''), (''x'', Num (Fin 1))]) w0 =
     [(''k'', Num (Fin 5)), (''x'', Num (Fin 2))] \<and>
   get_member (Bar, holding [(''kind'', Str ''Bar''), (''x'', Num (Fin 2)), (''k'', Num (Fin 5))])
     ''x'' = js_return (Num (Fin 2))"
proof -
  let ?src = "Obj [(''x'', Num (Fin 1)), (''k'', Num (Fin 5)), (''y'', Num (Fin 2))]"
  let ?outa = "(Bar, holding [(''kind'', Str ''Bar'')])"
  let ?outb = "(Bar, holding [(''kind'', Str ''Bar''), (''x'', Num (Fin 1))])"
  let ?out = "(Bar, holding [(''kind'', Str ''Bar''), (''x'', Num (Fin 2)), (''k'', Num (Fin 5))])"
  obtain g where g: "Format_extend base_format (Some Bar) [json [''x'']] = Inr g"
    and cg: "cl g = Some Bar" and mg: "mappers g = [json [''x'']] @ mappers base_format"
    and rule: "\<And>source w outa wa outb wb out w' x.
              new (Some Bar) w = (Inr outa, wa) \<and>
              forEach (\<lambda>m. read_step m (dropUndefined g) source) [json [''x'']] outa wa =
                (Inr outb, wb) \<and>
              invoke_read g source w = (Inr (Inst out), w') \<and>
              sticks Bar x \<and>
              (\<forall>m \<in> set ([json [''x'']] @ mappers base_format).
                 modelName m \<noteq> x \<longrightarrow> keeps Bar (modelName m) x)
              \<Longrightarrow> get_member out x =
                    (case last_assignment
                            (read_assignments (mappers base_format) (dropUndefined g) source
                               outb wb) x of
                       Some v \<Rightarrow> js_return v
                     | None \<Rightarrow>
                        (case last_assignment
                                (read_assignments [json [''x'']] (dropUndefined g) source
                                   outa wa) x of
                           Some v \<Rightarrow> js_return v
                         | None \<Rightarrow> get_member outa x))"
    using extend_prepends [OF base_format_configured, of Bar "[json [''x'']]"] by blast
  have eq: "g = extended_format"
    using g extended_format_derived by simp
  have bm: "mappers base_format = [json [''k''], JsonValue_to (json [''y'']) ''x'']"
    by (simp add: base_format_def)
  have ctor: "new (Some Bar) w0 = (Inr ?outa, w0)"
    by (simp add: new_def Bar_def holding_def js_bind_def js_return_def)
  have st: "sticks Bar ''x''" and kp: "keeps Bar ''k'' ''x''"
    by (simp_all add: Bar_data_field)
  have others: "\<forall>m \<in> set ([json [''x'']] @ mappers base_format).
                  modelName m \<noteq> ''x'' \<longrightarrow> keeps Bar (modelName m) ''x''"
    using kp by (simp add: bm json_Cons JsonValue_to_def)
  have ext_run: "forEach (\<lambda>m. read_step m (dropUndefined extended_format) ?src) [json [''x'']]
                   ?outa w0 = (Inr ?outb, w0)"
    by (simp add: extended_format_def Bar_def run_defs)
  have run: "invoke_read extended_format ?src w0 = (Inr (Inst ?out), w0)"
    by (simp add: extended_format_def Bar_def run_defs)
  have base_log: "read_assignments (mappers base_format) (dropUndefined extended_format) ?src
                    ?outb w0 = [(''k'', Num (Fin 5)), (''x'', Num (Fin 2))]"
    by (simp add: base_format_def extended_format_def Bar_def run_defs)
  have "new (Some Bar) w0 = (Inr ?outa, w0) \<and>
        forEach (\<lambda>m. read_step m (dropUndefined g) ?src) [json [''x'']] ?outa w0 =
          (Inr ?outb, w0) \<and>
        invoke_read g ?src w0 = (Inr (Inst ?out), w0) \<and>
        sticks Bar ''x'' \<and>
        (\<forall>m \<in> set ([json [''x'']] @ mappers base_format).
           modelName m \<noteq> ''x'' \<longrightarrow> keeps Bar (modelName m) ''x'')"
    unfolding eq using ctor ext_run run st others by blast
  from rule [OF this] have "get_member ?out ''x'' = js_return (Num (Fin 2))"
    unfolding eq base_log by (simp add: last_assignment_def)
  then show ?thesis
    using base_format_configured bm extended_format_derived cg mg eq st kp run base_log
    by simp
qed

text \<open>
  C4 as stated fails when the base mapper's result is a dropped \<^verbatim>\<open>undefined\<close>: the base
  format maps \<^verbatim>\<open>json`y`.to( 'x' )\<close>, the extension adds \<^verbatim>\<open>json`x`\<close>, and the source has no
  \<^verbatim>\<open>y\<close>. The field \<^verbatim>\<open>x\<close> of the instance holds the value of the extension mapper.
\<close>

theorem base_mapper_dropped_counterexample:
  "Format_extend base_format (Some Bar) [json [''x'']] = Inr extended_format \<and>
   mappers base_format = [json [''k''], JsonValue_to (json [''y'']) ''x''] \<and>
   modelName (JsonValue_to (json [''y'']) ''x'' :: unit Mapper) = modelName (json [''x''] :: unit Mapper) \<and>
   call (read_fn (JsonValue_to (json [''y'']) ''x'')) (Obj [(''x'', Num (Fin 1)), (''k'', Num (Fin 5))]) w0 =
     (Inr Undefined, w0) \<and>
   call (read_fn (json [''x''])) (Obj [(''x'', Num (Fin 1)), (''k'', Num (Fin 5))]) w0 =
     (Inr (Num (Fin 1)), w0) \<and>
   invoke_read extended_format (Obj [(''x'', Num (Fin 1)), (''k'', Num (Fin 5))]) w0 =
     (Inr (Inst (Bar, holding [(''kind'', Str ''Bar''), (''x'', Num (Fin 1)), (''k'', Num (Fin 5))])),
      w0) \<and>
   get_member (Bar, holding [(''kind'', Str ''Bar''), (''x'', Num (Fin 1)), (''k'', Num (Fin 5))])
     ''x'' w0 = (Inr (Num (Fin 1)), w0)"
  by (simp add: extended_format_derived)
     (simp add: extended_format_def base_format_def Bar_def run_defs)

section \<open>Round trip\<close>












end
